theory Spec2Isabelle
  imports Complex_Main "HOL-Library.Multiset" "HOL-Library.Sublist"
begin

section \<open>The risk-and-execution engine of \<open>trader/auto_trader.go\<close>\<close>

text \<open>
  The engine is embedded function by function. Conventions of the embedding:
  \<^item> Go's \<open>float64\<close> is read as \<open>real\<close>: the arithmetic is exact, there is no NaN and no
    infinity. A quotient by zero is 0 in HOL and an infinity or NaN in Go. The source
    guards its divisors except two: \<open>positionRoiPct\<close> divides by the entry price, and the
    open handlers divide by the current price. The theorem about the drawdown monitor
    assumes a non-zero entry price; the theorem about the open handlers equates two runs
    of the same handler, and its example has a positive price.
  \<^item> Go's \<open>int\<close> and \<open>time.Duration\<close> are read as \<open>int\<close>; a time is a number of
    nanoseconds. The loss counter would need more than \<open>2^31\<close> consecutive losses to wrap.
  \<^item> \<open>strings.ToUpper\<close>, \<open>strings.ToLower\<close> and \<open>strings.EqualFold\<close> are embedded for
    ASCII letters; every other byte is left as it is.
  \<^item> The engine's mutable fields are the record \<open>AutoTrader\<close>, passed explicitly; its map
    \<open>positionMeta\<close> is the field \<open>positionMetaCache\<close>. The collaborators (exchange adapter,
    market data, clock) are the record \<open>world\<close>: each answer may depend on the calls
    issued so far, which the field \<open>calls\<close> of the state collects in order. Logging and
    the mutexes are left out: every function is embedded as it runs alone.
\<close>

subsection \<open>Strings\<close>

definition lowerTable :: "(char \<times> char) list" where
  "lowerTable = zip ''ABCDEFGHIJKLMNOPQRSTUVWXYZ'' ''abcdefghijklmnopqrstuvwxyz''"

definition upperTable :: "(char \<times> char) list" where
  "upperTable = zip ''abcdefghijklmnopqrstuvwxyz'' ''ABCDEFGHIJKLMNOPQRSTUVWXYZ''"

definition toLowerChar :: "char \<Rightarrow> char" where
  "toLowerChar c = (case map_of lowerTable c of Some l \<Rightarrow> l | None \<Rightarrow> c)"

definition toUpperChar :: "char \<Rightarrow> char" where
  "toUpperChar c = (case map_of upperTable c of Some u \<Rightarrow> u | None \<Rightarrow> c)"

definition ToLower :: "string \<Rightarrow> string" where
  "ToLower s = map toLowerChar s"

definition ToUpper :: "string \<Rightarrow> string" where
  "ToUpper s = map toUpperChar s"

definition EqualFold :: "string \<Rightarrow> string \<Rightarrow> bool" where
  "EqualFold s t = (ToLower s = ToLower t)"

definition HasPrefix :: "string \<Rightarrow> string \<Rightarrow> bool" where
  "HasPrefix s p = (take (length p) s = p)"

subsection \<open>Data\<close>

text \<open>\<open>decision.Decision\<close>, with the fields the engine reads and writes.\<close>

record Decision =
  Symbol :: string
  Action :: string
  Leverage :: int
  PositionSizeUSD :: real
  RiskUSD :: real
  StopLoss :: real
  TakeProfit :: real
  NewStopLoss :: real
  NewTakeProfit :: real
  ClosePercentage :: real
  Confidence :: int
  Reasoning :: string

text \<open>The cached entry details of a position (\<open>positionMeta\<close> of the source).\<close>

record positionMeta =
  Side :: string
  EntryPrice :: real
  Quantity :: real

text \<open>
  The calls the engine issues to its collaborators, with their arguments:
  the market data provider and the exchange adapter of interface \<open>Trader\<close>.
\<close>

datatype call =
    MarketGet string
  | GetPositions
  | GetBalance
  | SetMarginMode string bool
  | OpenLong string real int
  | OpenShort string real int
  | CloseLong string real
  | CloseShort string real
  | SetStopLoss string string real real
  | SetTakeProfit string string real real
  | CancelStopOrders string

text \<open>
  The mutable fields of \<open>AutoTrader\<close>, the margin mode of its configuration, and the
  calls issued so far.
\<close>

record AutoTrader =
  stopUntil :: int
  consecutiveLosses :: int
  peakPnLCache :: "string \<rightharpoonup> real"
  positionMetaCache :: "string \<rightharpoonup> positionMeta"
  stopLossCache :: "string \<rightharpoonup> real"
  takeProfitCache :: "string \<rightharpoonup> real"
  positionFirstSeenTime :: "string \<rightharpoonup> int"
  IsCrossMargin :: bool
  calls :: "call list"

text \<open>
  \<open>market.Data\<close>: the indicator contexts are pointers and may be nil.
\<close>

record MidTermData =
  mt_ATR14 :: real
  mt_EMA20 :: real
  mt_RSI7 :: real

record LongerTermData =
  lt_ATR14 :: real

record IntradayData =
  RSI7Values :: "real list"

record Data =
  CurrentPrice :: real
  CurrentMACD :: real
  MidTermContext :: "MidTermData option"
  LongerTermContext :: "LongerTermData option"
  IntradaySeries :: "IntradayData option"

text \<open>
  A position as the adapter returns it, a \<open>map[string]interface{}\<close> in the source. The
  entries \<open>symbol\<close>, \<open>side\<close>, \<open>entryPrice\<close>, \<open>markPrice\<close> and \<open>positionAmt\<close> are taken
  as present with their types (\<open>checkPositionDrawdown\<close> asserts them unchecked); the
  entry \<open>leverage\<close> is read with a checked assertion and may be absent.
\<close>

record position =
  pos_symbol :: string
  pos_side :: string
  pos_entryPrice :: real
  pos_markPrice :: real
  pos_positionAmt :: real
  pos_leverage :: "real option"

text \<open>The balance map of the adapter; each entry is read with a checked assertion.\<close>

record balance =
  bal_availableBalance :: "real option"
  bal_totalWalletBalance :: "real option"
  bal_totalUnrealizedProfit :: "real option"

text \<open>\<open>decision.PositionInfo\<close> and \<open>decision.Context\<close>, with the fields the engine reads.\<close>

record PositionInfo =
  pi_Symbol :: string
  pi_Side :: string
  pi_EntryPrice :: real
  pi_MarkPrice :: real
  pi_Quantity :: real

record Context =
  Positions :: "PositionInfo list"
  MarketDataMap :: "(string \<rightharpoonup> Data) option"

text \<open>
  Errors as values: one constructor for each \<open>fmt.Errorf\<close> of the embedded functions,
  carrying the values the message prints. A collaborator's error is its message;
  \<open>AdapterError\<close> is such an error handed on unchanged, and the constructors ending in
  \<open>Failed\<close> are the source's wrappings of one.
\<close>

datatype error =
    AdapterError string
  | LowConfidence int int
  | DuplicatePosition string string
  | MissingMidTermIndicators string
  | MidTermIndicatorsNotReady string
  | RSIAboveLimit real
  | PriceAboveBand real real
  | RSIBelowLimit real
  | PriceBelowBand real real
  | UnknownDirection string
  | MissingShortTermIndicators string
  | MACDStillNegative real
  | MACDStillPositive real
  | RSINotRising real real
  | RSINotFalling real real
  | GetBalanceFailed string
  | LeverageNotSet
  | BalanceBelowBuffer real
  | NotionalBelowMinimum real real
  | MissingMarketData
  | MissingATR
  | NoStopDistance
  | StopDistanceUnverifiable "error option"
  | StopDistanceTooWide real real
  | InsufficientMargin real real real real
  | GetPositionsFailed string
  | PositionNotFound string
  | LongStopNotBelowPrice real real
  | ShortStopNotAbovePrice real real
  | StopLossNotTightened real real
  | SetStopLossFailed string
  | LongTakeProfitNotAbovePrice real real
  | ShortTakeProfitNotBelowPrice real real
  | SetTakeProfitFailed string
  | ClosePercentageOutOfRange real
  | CloseQuantityTooSmall real
  | PartialCloseFailed string
  | UnknownSide string
  | UnknownAction string

definition minConfidence :: int where
  "minConfidence = 80"

definition floatEpsilon :: real where
  "floatEpsilon = 1 / 1000000"

definition Minute :: int where
  "Minute = 60 * 1000000000"

definition Hour :: int where
  "Hour = 60 * Minute"

text \<open>
  The collaborators. Every answer is a function of the calls issued before it, so an
  exchange whose positions change after an order is one of the worlds. An order is
  represented by its \<open>orderId\<close>.
\<close>

record world =
  time_Now :: "call list \<Rightarrow> int"
  market_Get :: "call list \<Rightarrow> string \<Rightarrow> string + Data"
  trader_GetPositions :: "call list \<Rightarrow> string + position list"
  trader_GetBalance :: "call list \<Rightarrow> string + balance"
  trader_SetMarginMode :: "call list \<Rightarrow> string \<Rightarrow> bool \<Rightarrow> string option"
  trader_OpenLong :: "call list \<Rightarrow> string \<Rightarrow> real \<Rightarrow> int \<Rightarrow> string + int"
  trader_OpenShort :: "call list \<Rightarrow> string \<Rightarrow> real \<Rightarrow> int \<Rightarrow> string + int"
  trader_CloseLong :: "call list \<Rightarrow> string \<Rightarrow> real \<Rightarrow> string + int"
  trader_CloseShort :: "call list \<Rightarrow> string \<Rightarrow> real \<Rightarrow> string + int"
  trader_SetStopLoss :: "call list \<Rightarrow> string \<Rightarrow> string \<Rightarrow> real \<Rightarrow> real \<Rightarrow> string option"
  trader_SetTakeProfit :: "call list \<Rightarrow> string \<Rightarrow> string \<Rightarrow> real \<Rightarrow> real \<Rightarrow> string option"
  trader_CancelStopOrders :: "call list \<Rightarrow> string \<Rightarrow> string option"

text \<open>Issuing a call: the answer of the world, and the call appended to the state.\<close>

definition issue :: "call \<Rightarrow> AutoTrader \<Rightarrow> AutoTrader" where
  "issue c tr = tr\<lparr>calls := calls tr @ [c]\<rparr>"

definition doMarketGet :: "world \<Rightarrow> string \<Rightarrow> AutoTrader \<Rightarrow> (string + Data) \<times> AutoTrader" where
  "doMarketGet w symbol tr = (market_Get w (calls tr) symbol, issue (MarketGet symbol) tr)"

definition doGetPositions :: "world \<Rightarrow> AutoTrader \<Rightarrow> (string + position list) \<times> AutoTrader" where
  "doGetPositions w tr = (trader_GetPositions w (calls tr), issue GetPositions tr)"

definition doGetBalance :: "world \<Rightarrow> AutoTrader \<Rightarrow> (string + balance) \<times> AutoTrader" where
  "doGetBalance w tr = (trader_GetBalance w (calls tr), issue GetBalance tr)"

definition doSetMarginMode :: "world \<Rightarrow> string \<Rightarrow> bool \<Rightarrow> AutoTrader \<Rightarrow> string option \<times> AutoTrader" where
  "doSetMarginMode w symbol isCross tr =
     (trader_SetMarginMode w (calls tr) symbol isCross, issue (SetMarginMode symbol isCross) tr)"

definition doOpenLong :: "world \<Rightarrow> string \<Rightarrow> real \<Rightarrow> int \<Rightarrow> AutoTrader \<Rightarrow> (string + int) \<times> AutoTrader" where
  "doOpenLong w symbol qty lev tr =
     (trader_OpenLong w (calls tr) symbol qty lev, issue (OpenLong symbol qty lev) tr)"

definition doOpenShort :: "world \<Rightarrow> string \<Rightarrow> real \<Rightarrow> int \<Rightarrow> AutoTrader \<Rightarrow> (string + int) \<times> AutoTrader" where
  "doOpenShort w symbol qty lev tr =
     (trader_OpenShort w (calls tr) symbol qty lev, issue (OpenShort symbol qty lev) tr)"

definition doCloseLong :: "world \<Rightarrow> string \<Rightarrow> real \<Rightarrow> AutoTrader \<Rightarrow> (string + int) \<times> AutoTrader" where
  "doCloseLong w symbol qty tr =
     (trader_CloseLong w (calls tr) symbol qty, issue (CloseLong symbol qty) tr)"

definition doCloseShort :: "world \<Rightarrow> string \<Rightarrow> real \<Rightarrow> AutoTrader \<Rightarrow> (string + int) \<times> AutoTrader" where
  "doCloseShort w symbol qty tr =
     (trader_CloseShort w (calls tr) symbol qty, issue (CloseShort symbol qty) tr)"

definition doSetStopLoss ::
  "world \<Rightarrow> string \<Rightarrow> string \<Rightarrow> real \<Rightarrow> real \<Rightarrow> AutoTrader \<Rightarrow> string option \<times> AutoTrader" where
  "doSetStopLoss w symbol side qty price tr =
     (trader_SetStopLoss w (calls tr) symbol side qty price,
      issue (SetStopLoss symbol side qty price) tr)"

definition doSetTakeProfit ::
  "world \<Rightarrow> string \<Rightarrow> string \<Rightarrow> real \<Rightarrow> real \<Rightarrow> AutoTrader \<Rightarrow> string option \<times> AutoTrader" where
  "doSetTakeProfit w symbol side qty price tr =
     (trader_SetTakeProfit w (calls tr) symbol side qty price,
      issue (SetTakeProfit symbol side qty price) tr)"

definition doCancelStopOrders :: "world \<Rightarrow> string \<Rightarrow> AutoTrader \<Rightarrow> string option \<times> AutoTrader" where
  "doCancelStopOrders w symbol tr =
     (trader_CancelStopOrders w (calls tr) symbol, issue (CancelStopOrders symbol) tr)"

subsection \<open>Priority sort of a decision batch\<close>

definition getActionPriority :: "string \<Rightarrow> int" where
  "getActionPriority action =
     (if action = ''close_long'' \<or> action = ''close_short'' \<or> action = ''partial_close'' then 1
      else if action = ''update_stop_loss'' \<or> action = ''update_take_profit'' then 2
      else if action = ''open_long'' \<or> action = ''open_short'' then 3
      else if action = ''hold'' \<or> action = ''wait'' then 4
      else 999)"

text \<open>
  The inner loop \<open>for j := i + 1; j < len(sorted); j++\<close>: it swaps the entries at \<open>i\<close>
  and \<open>j\<close> of the copy (\<open>srt\<close> here) when the one at \<open>i\<close> has the larger priority
  number. Both loops keep \<open>i < j < len(sorted)\<close>, so every index is in range.
\<close>

function sortInner :: "Decision list \<Rightarrow> nat \<Rightarrow> nat \<Rightarrow> Decision list" where
  "sortInner srt i j =
     (if j < length srt then
        sortInner
          (if getActionPriority (Action (srt ! i)) > getActionPriority (Action (srt ! j))
           then srt[i := srt ! j, j := srt ! i] else srt)
          i (j + 1)
      else srt)"
  by pat_completeness auto
termination
  by (relation "measure (\<lambda>(srt, i, j). length srt - j)") auto

declare sortInner.simps [simp del]

lemma length_sortInner [simp]: "length (sortInner xs i j) = length xs"
proof (induction xs i j rule: sortInner.induct)
  case (1 srt i j)
  show ?case
    using "1.IH" by (subst sortInner.simps) (simp split: if_splits)
qed

text \<open>The outer loop \<open>for i := 0; i < len(sorted)-1; i++\<close>.\<close>

function sortOuter :: "Decision list \<Rightarrow> nat \<Rightarrow> Decision list" where
  "sortOuter srt i =
     (if i + 1 < length srt then sortOuter (sortInner srt i (i + 1)) (i + 1)
      else srt)"
  by pat_completeness auto
termination
  by (relation "measure (\<lambda>(srt, i). length srt - i)") auto

declare sortOuter.simps [simp del]

definition sortDecisionsByPriority :: "Decision list \<Rightarrow> Decision list" where
  "sortDecisionsByPriority decisions =
     (if length decisions \<le> 1 then decisions else sortOuter decisions 0)"

subsection \<open>Consecutive-loss circuit breaker\<close>

definition updateConsecutiveLosses :: "world \<Rightarrow> real \<Rightarrow> AutoTrader \<Rightarrow> AutoTrader" where
  "updateConsecutiveLosses w pnl tr =
     (if \<bar>pnl\<bar> < floatEpsilon then tr
      else if pnl < 0 then
        (let tr1 = tr\<lparr>consecutiveLosses := consecutiveLosses tr + 1\<rparr>;
             pauseDuration =
               (if consecutiveLosses tr1 = 2 then 45 * Minute
                else if consecutiveLosses tr1 = 3 then 24 * Hour
                else if consecutiveLosses tr1 \<ge> 4 then 72 * Hour
                else 0)
         in if pauseDuration > 0
            then tr1\<lparr>stopUntil := time_Now w (calls tr1) + pauseDuration\<rparr>
            else tr1)
      else tr\<lparr>consecutiveLosses := 0\<rparr>)"

subsection \<open>The caches\<close>

definition positionKey :: "string \<Rightarrow> string \<Rightarrow> string" where
  "positionKey symbol side = symbol @ ''_'' @ ToLower side"

definition getPeakPnL :: "AutoTrader \<Rightarrow> string \<Rightarrow> string \<Rightarrow> real option" where
  "getPeakPnL tr symbol side = peakPnLCache tr (positionKey symbol side)"

definition UpdatePeakPnL :: "string \<Rightarrow> string \<Rightarrow> real \<Rightarrow> AutoTrader \<Rightarrow> AutoTrader" where
  "UpdatePeakPnL symbol side currentPnLPct tr =
     (let key = positionKey symbol side in
      case peakPnLCache tr key of
        Some peak \<Rightarrow>
          if currentPnLPct > peak
          then tr\<lparr>peakPnLCache := (peakPnLCache tr)(key \<mapsto> currentPnLPct)\<rparr>
          else tr
      | None \<Rightarrow> tr\<lparr>peakPnLCache := (peakPnLCache tr)(key \<mapsto> currentPnLPct)\<rparr>)"

definition ClearPeakPnLCache :: "string \<Rightarrow> string \<Rightarrow> AutoTrader \<Rightarrow> AutoTrader" where
  "ClearPeakPnLCache symbol side tr =
     tr\<lparr>peakPnLCache := (peakPnLCache tr)(positionKey symbol side := None)\<rparr>"

definition estimateStepSize :: "string \<Rightarrow> real" where
  "estimateStepSize symbol =
     (let upper = ToUpper symbol in
      if HasPrefix upper ''BTC'' then 1 / 1000
      else if HasPrefix upper ''ETH'' then 1 / 100
      else 1 / 10)"

definition roundQuantity :: "string \<Rightarrow> real \<Rightarrow> real" where
  "roundQuantity symbol qty =
     (let step0 = estimateStepSize symbol;
          step = (if step0 \<le> 0 then 1 / 1000000 else step0);
          steps = of_int \<lfloor>qty / step + 1 / 1000000000\<rfloor>
      in steps * step)"

definition storePositionMeta :: "string \<Rightarrow> string \<Rightarrow> real \<Rightarrow> real \<Rightarrow> AutoTrader \<Rightarrow> AutoTrader" where
  "storePositionMeta symbol side entryPrice quantity tr =
     (if quantity \<le> 0 then tr
      else tr\<lparr>positionMetaCache := (positionMetaCache tr)(positionKey symbol side \<mapsto>
             \<lparr>Side = ToLower side, EntryPrice = entryPrice, Quantity = quantity\<rparr>)\<rparr>)"

definition getPositionQuantity :: "AutoTrader \<Rightarrow> string \<Rightarrow> string \<Rightarrow> real" where
  "getPositionQuantity tr symbol side =
     (case positionMetaCache tr (positionKey symbol side) of
        Some meta \<Rightarrow> Quantity meta
      | None \<Rightarrow> 0)"

definition storeStopLoss :: "string \<Rightarrow> string \<Rightarrow> real \<Rightarrow> AutoTrader \<Rightarrow> AutoTrader" where
  "storeStopLoss symbol side stopLoss tr =
     tr\<lparr>stopLossCache := (stopLossCache tr)(positionKey symbol side \<mapsto> stopLoss)\<rparr>"

definition getStopLoss :: "AutoTrader \<Rightarrow> string \<Rightarrow> string \<Rightarrow> real option" where
  "getStopLoss tr symbol side = stopLossCache tr (positionKey symbol side)"

definition storeTakeProfit :: "string \<Rightarrow> string \<Rightarrow> real \<Rightarrow> AutoTrader \<Rightarrow> AutoTrader" where
  "storeTakeProfit symbol side takeProfit tr =
     tr\<lparr>takeProfitCache := (takeProfitCache tr)(positionKey symbol side \<mapsto> takeProfit)\<rparr>"

definition getTakeProfit :: "AutoTrader \<Rightarrow> string \<Rightarrow> string \<Rightarrow> real option" where
  "getTakeProfit tr symbol side = takeProfitCache tr (positionKey symbol side)"

text \<open>The ratchet guard: \<open>None\<close> is the source's \<open>nil\<close> error.\<close>

definition ensureStopLossTightening ::
  "AutoTrader \<Rightarrow> string \<Rightarrow> string \<Rightarrow> real \<Rightarrow> error option" where
  "ensureStopLossTightening tr symbol side newStop =
     (case stopLossCache tr (positionKey symbol side) of
        None \<Rightarrow> None
      | Some previous \<Rightarrow>
          if ToUpper side = ''LONG'' then
            (if newStop + floatEpsilon < previous
             then Some (StopLossNotTightened previous newStop) else None)
          else
            (if newStop - floatEpsilon > previous
             then Some (StopLossNotTightened previous newStop) else None))"

definition handleRealizedPnL ::
  "world \<Rightarrow> string \<Rightarrow> string \<Rightarrow> real \<Rightarrow> real \<Rightarrow> AutoTrader \<Rightarrow> AutoTrader" where
  "handleRealizedPnL w symbol side closedQuantity closePrice tr =
     (if closedQuantity \<le> 0 then tr
      else
        let key = positionKey symbol side in
        case positionMetaCache tr key of
          None \<Rightarrow> tr
        | Some meta \<Rightarrow>
            let entryPrice = EntryPrice meta;
                remaining = Quantity meta - closedQuantity;
                tr1 = (if remaining < floatEpsilon
                       then tr\<lparr>positionMetaCache := (positionMetaCache tr)(key := None),
                               stopLossCache := (stopLossCache tr)(key := None),
                               takeProfitCache := (takeProfitCache tr)(key := None)\<rparr>
                       else tr\<lparr>positionMetaCache :=
                               (positionMetaCache tr)(key \<mapsto> meta\<lparr>Quantity := remaining\<rparr>)\<rparr>);
                pnl = (if ToLower side = ''long''
                       then (closePrice - entryPrice) * closedQuantity
                       else (entryPrice - closePrice) * closedQuantity)
            in updateConsecutiveLosses w pnl tr1)"

subsection \<open>Pre-trade guardrails\<close>

definition ensureMidTermEntryFilters :: "Data option \<Rightarrow> string \<Rightarrow> error option" where
  "ensureMidTermEntryFilters data direction =
     (case data of
        None \<Rightarrow> Some (MissingMidTermIndicators direction)
      | Some d \<Rightarrow>
         (case MidTermContext d of
            None \<Rightarrow> Some (MissingMidTermIndicators direction)
          | Some mt \<Rightarrow>
              if mt_ATR14 mt \<le> 0 \<or> mt_EMA20 mt = 0 \<or> mt_RSI7 mt \<le> 0
              then Some (MidTermIndicatorsNotReady direction)
              else
                let price = CurrentPrice d in
                if direction = ''long'' then
                  (let upper = mt_EMA20 mt + (6 / 10) * mt_ATR14 mt in
                   if mt_RSI7 mt > 68 then Some (RSIAboveLimit (mt_RSI7 mt))
                   else if price > upper then Some (PriceAboveBand price upper)
                   else None)
                else if direction = ''short'' then
                  (let lower = mt_EMA20 mt - (6 / 10) * mt_ATR14 mt in
                   if mt_RSI7 mt < 32 then Some (RSIBelowLimit (mt_RSI7 mt))
                   else if price < lower then Some (PriceBelowBand price lower)
                   else None)
                else Some (UnknownDirection direction)))"

definition rsiSlopeCheck :: "Data \<Rightarrow> string \<Rightarrow> error option" where
  "rsiSlopeCheck d direction =
     (case IntradaySeries d of
        None \<Rightarrow> None
      | Some series \<Rightarrow>
          let vs = RSI7Values series in
          if length vs \<ge> 2 then
            (let last = vs ! (length vs - 1);
                 prev = vs ! (length vs - 2);
                 slope = last - prev
             in if direction = ''long'' \<and> slope < - (2 / 10) then Some (RSINotRising prev last)
                else if direction = ''short'' \<and> slope > 2 / 10 then Some (RSINotFalling prev last)
                else None)
          else None)"

definition ensureShortTermMomentum :: "Data option \<Rightarrow> string \<Rightarrow> error option" where
  "ensureShortTermMomentum data direction =
     (case data of
        None \<Rightarrow> Some (MissingShortTermIndicators direction)
      | Some d \<Rightarrow>
          let macd = CurrentMACD d in
          if direction = ''long'' then
            (if macd < - floatEpsilon then Some (MACDStillNegative macd)
             else rsiSlopeCheck d direction)
          else if direction = ''short'' then
            (if macd > floatEpsilon then Some (MACDStillPositive macd)
             else rsiSlopeCheck d direction)
          else Some (UnknownDirection direction))"

definition isMajorPair :: "string \<Rightarrow> bool" where
  "isMajorPair symbol = (let s = ToUpper symbol in s = ''BTCUSDT'' \<or> s = ''ETHUSDT'')"

definition allowedStopDistance :: "Data option \<Rightarrow> error + real" where
  "allowedStopDistance data =
     (case data of
        None \<Rightarrow> Inl MissingATR
      | Some d \<Rightarrow>
          let candidates =
                (case MidTermContext d of
                   Some mt \<Rightarrow> if mt_ATR14 mt > 0 then [mt_ATR14 mt * (15 / 10)] else []
                 | None \<Rightarrow> [])
                @ (if CurrentPrice d > 0 then [CurrentPrice d * (15 / 1000)] else []);
              allowed = foldl (\<lambda>allowed c. if c > allowed then c else allowed) 0 candidates;
              fallback = (if allowed \<le> 0 then Inl NoStopDistance else Inr allowed)
          in case LongerTermContext d of
               Some lt \<Rightarrow> if lt_ATR14 lt > 0 then Inr (lt_ATR14 lt) else fallback
             | None \<Rightarrow> fallback)"

text \<open>
  \<open>ensurePositionFitsBalance\<close> adjusts the decision in place in four consecutive blocks,
  embedded one by one: the equity clamp (small-account mode or soft cap), the clamp to
  \<open>maxNotional\<close>, the cap of the risk budget at \<open>maxRisk\<close>, and the normalisation of
  the risk budget towards the equity target.
\<close>

definition clampToEquity :: "real \<Rightarrow> Decision \<Rightarrow> Decision" where
  "clampToEquity totalEquity decision =
     (let isSmallAccount = totalEquity > floatEpsilon \<and> totalEquity < 150 in
      if isSmallAccount then
        (let maxNotionalByEquity = totalEquity in
         if PositionSizeUSD decision > maxNotionalByEquity then
           (let ratio = maxNotionalByEquity / PositionSizeUSD decision in
            decision\<lparr>PositionSizeUSD := maxNotionalByEquity,
                     RiskUSD := (if RiskUSD decision > 0 then RiskUSD decision * ratio
                                 else RiskUSD decision)\<rparr>)
         else decision)
      else if totalEquity > floatEpsilon then
        (let softMultiplier = (if isMajorPair (Symbol decision) then 3 else 15 / 10);
             softCap = totalEquity * softMultiplier
         in if softCap > floatEpsilon \<and> PositionSizeUSD decision > softCap then
              (let ratio = softCap / PositionSizeUSD decision in
               decision\<lparr>PositionSizeUSD := softCap,
                        RiskUSD := (if RiskUSD decision > 0 then RiskUSD decision * ratio
                                    else RiskUSD decision)\<rparr>)
            else decision)
      else decision)"

definition clampToMaxNotional :: "real \<Rightarrow> Decision \<Rightarrow> Decision" where
  "clampToMaxNotional maxNotional decision =
     (if PositionSizeUSD decision > maxNotional then
        (let ratio = maxNotional / PositionSizeUSD decision in
         decision\<lparr>PositionSizeUSD := maxNotional,
                  RiskUSD := (if RiskUSD decision > 0 then RiskUSD decision * ratio
                              else RiskUSD decision)\<rparr>)
      else decision)"

definition capRisk :: "real \<Rightarrow> Decision \<Rightarrow> Decision" where
  "capRisk maxRisk decision =
     (if RiskUSD decision > 0 \<and> RiskUSD decision > maxRisk
      then decision\<lparr>RiskUSD := maxRisk\<rparr> else decision)"

definition normalizeRisk :: "real \<Rightarrow> Decision \<Rightarrow> Decision" where
  "normalizeRisk totalEquity decision =
     (if totalEquity > floatEpsilon then
        (let expectedRisk = max (totalEquity * (5 / 1000)) (5 / 10) in
         if RiskUSD decision \<le> 0 then decision\<lparr>RiskUSD := expectedRisk\<rparr>
         else
           (let diff = \<bar>RiskUSD decision - expectedRisk\<bar> in
            if diff > expectedRisk * (5 / 10) then decision\<lparr>RiskUSD := expectedRisk\<rparr>
            else decision))
      else decision)"

definition ensurePositionFitsBalance ::
  "Decision \<Rightarrow> real \<Rightarrow> real \<Rightarrow> Data option \<Rightarrow> error + Decision" where
  "ensurePositionFitsBalance decision availableBalance totalEquity marketData =
     (if Leverage decision \<le> 0 then Inl LeverageNotSet
      else
        let safetyBuffer = max (5 / 10) (availableBalance * (2 / 100));
            maxUsable = availableBalance - safetyBuffer
        in if maxUsable \<le> 0 then Inl (BalanceBelowBuffer availableBalance)
        else
          let maxNotional = maxUsable * of_int (Leverage decision);
              minNotional = (if isMajorPair (Symbol decision) then 60 else 12)
          in if maxNotional < minNotional then Inl (NotionalBelowMinimum maxNotional minNotional)
          else
            let maxRisk = availableBalance * (8 / 10) in
            case marketData of
              None \<Rightarrow> Inl MissingMarketData
            | Some md \<Rightarrow>
               (case allowedStopDistance marketData of
                  Inl err \<Rightarrow> Inl (StopDistanceUnverifiable (Some err))
                | Inr allowed \<Rightarrow>
                    if allowed \<le> 0 then Inl (StopDistanceUnverifiable None)
                    else
                      let distance = \<bar>StopLoss decision - CurrentPrice md\<bar> in
                      if distance > allowed then Inl (StopDistanceTooWide distance allowed)
                      else Inr (normalizeRisk totalEquity
                                 (capRisk maxRisk
                                   (clampToMaxNotional maxNotional
                                     (clampToEquity totalEquity decision))))))"

subsection \<open>Execution handlers\<close>

text \<open>
  A handler returns the source's error (\<open>None\<close> for \<open>nil\<close>) and the state it leaves. The
  action record of the decision log is not part of the embedding; the quantity and the
  price a handler passes to the adapter are in the call it issues.
\<close>

text \<open>
  \<open>executeOpenLongWithRecord\<close> and \<open>executeOpenShortWithRecord\<close> are the same text up to
  the side (\<open>long\<close>/\<open>short\<close>, in upper case for the stop orders) and the adapter's
  opening call; \<open>openAfterGate\<close> is that text from \<open>market.Get\<close> on, after the confidence
  gate and the duplicate-position gate.
\<close>

definition totalEquityOf :: "balance \<Rightarrow> real \<Rightarrow> real" where
  "totalEquityOf bal available =
     (case bal_totalWalletBalance bal of
        Some wallet \<Rightarrow>
          if wallet > 0 then
            (case bal_totalUnrealizedProfit bal of
               Some unrealized \<Rightarrow> wallet + unrealized
             | None \<Rightarrow> wallet)
          else available
      | None \<Rightarrow> available)"

definition placeOpenOrder ::
  "world \<Rightarrow> string \<Rightarrow> Decision \<Rightarrow> Data \<Rightarrow> real \<Rightarrow> AutoTrader \<Rightarrow> error option \<times> AutoTrader" where
  "placeOpenOrder w side decision marketData quantity tr =
     (case doSetMarginMode w (Symbol decision) (IsCrossMargin tr) tr of (_, tr1) \<Rightarrow>
      case (if side = ''long''
            then doOpenLong w (Symbol decision) quantity (Leverage decision) tr1
            else doOpenShort w (Symbol decision) quantity (Leverage decision) tr1) of
        (Inl err, tr2) \<Rightarrow> (Some (AdapterError err), tr2)
      | (Inr order, tr2) \<Rightarrow>
          let tr3 = storePositionMeta (Symbol decision) side (CurrentPrice marketData) quantity tr2;
              posKey = Symbol decision @ ''_'' @ side;
              tr4 = tr3\<lparr>positionFirstSeenTime :=
                      (positionFirstSeenTime tr3)(posKey \<mapsto> time_Now w (calls tr3) div 1000000)\<rparr>
          in case doSetStopLoss w (Symbol decision) (ToUpper side) quantity (StopLoss decision) tr4 of
               (slErr, tr5) \<Rightarrow>
                 let tr6 = (case slErr of
                              Some _ \<Rightarrow> tr5
                            | None \<Rightarrow> storeStopLoss (Symbol decision) side (StopLoss decision) tr5)
                 in case doSetTakeProfit w (Symbol decision) (ToUpper side) quantity
                           (TakeProfit decision) tr6 of
                      (tpErr, tr7) \<Rightarrow>
                        (None,
                         case tpErr of
                           Some _ \<Rightarrow> tr7
                         | None \<Rightarrow> storeTakeProfit (Symbol decision) side (TakeProfit decision) tr7))"

definition openAfterGate ::
  "world \<Rightarrow> string \<Rightarrow> Decision \<Rightarrow> AutoTrader \<Rightarrow> error option \<times> AutoTrader" where
  "openAfterGate w side decision tr =
     (case doMarketGet w (Symbol decision) tr of
        (Inl err, tr1) \<Rightarrow> (Some (AdapterError err), tr1)
      | (Inr marketData, tr1) \<Rightarrow>
         (case ensureMidTermEntryFilters (Some marketData) side of
            Some err \<Rightarrow> (Some err, tr1)
          | None \<Rightarrow>
             (case ensureShortTermMomentum (Some marketData) side of
                Some err \<Rightarrow> (Some err, tr1)
              | None \<Rightarrow>
                 (case doGetBalance w tr1 of
                    (Inl err, tr2) \<Rightarrow> (Some (GetBalanceFailed err), tr2)
                  | (Inr bal, tr2) \<Rightarrow>
                      let available = (case bal_availableBalance bal of Some avail \<Rightarrow> avail | None \<Rightarrow> 0);
                          totalEquity = totalEquityOf bal available
                      in case ensurePositionFitsBalance decision available totalEquity
                                (Some marketData) of
                           Inl err \<Rightarrow> (Some err, tr2)
                         | Inr adjusted \<Rightarrow>
                             let quantity = PositionSizeUSD adjusted / CurrentPrice marketData;
                                 requiredMargin = PositionSizeUSD adjusted / of_int (Leverage adjusted);
                                 estimatedFee = PositionSizeUSD adjusted * (4 / 10000);
                                 totalRequired = requiredMargin + estimatedFee
                             in if totalRequired > available
                                then (Some (InsufficientMargin totalRequired requiredMargin
                                              estimatedFee available), tr2)
                                else placeOpenOrder w side adjusted marketData quantity tr2))))"

definition executeOpenWithRecord ::
  "world \<Rightarrow> string \<Rightarrow> Decision \<Rightarrow> AutoTrader \<Rightarrow> error option \<times> AutoTrader" where
  "executeOpenWithRecord w side decision tr =
     (if Confidence decision < minConfidence
      then (Some (LowConfidence (Confidence decision) minConfidence), tr)
      else
        case doGetPositions w tr of
          (Inr positions, tr1) \<Rightarrow>
            if list_ex (\<lambda>pos. pos_symbol pos = Symbol decision \<and> pos_side pos = side) positions
            then (Some (DuplicatePosition (Symbol decision) side), tr1)
            else openAfterGate w side decision tr1
        | (Inl err, tr1) \<Rightarrow> openAfterGate w side decision tr1)"

definition executeOpenLongWithRecord ::
  "world \<Rightarrow> Decision \<Rightarrow> AutoTrader \<Rightarrow> error option \<times> AutoTrader" where
  "executeOpenLongWithRecord w decision tr = executeOpenWithRecord w ''long'' decision tr"

definition executeOpenShortWithRecord ::
  "world \<Rightarrow> Decision \<Rightarrow> AutoTrader \<Rightarrow> error option \<times> AutoTrader" where
  "executeOpenShortWithRecord w decision tr = executeOpenWithRecord w ''short'' decision tr"

definition executeCloseLongWithRecord ::
  "world \<Rightarrow> Decision \<Rightarrow> AutoTrader \<Rightarrow> error option \<times> AutoTrader" where
  "executeCloseLongWithRecord w decision tr =
     (case doMarketGet w (Symbol decision) tr of
        (Inl err, tr1) \<Rightarrow> (Some (AdapterError err), tr1)
      | (Inr marketData, tr1) \<Rightarrow>
          let closedQty = getPositionQuantity tr1 (Symbol decision) ''long'' in
          case doCloseLong w (Symbol decision) 0 tr1 of
            (Inl err, tr2) \<Rightarrow> (Some (AdapterError err), tr2)
          | (Inr order, tr2) \<Rightarrow>
              (None, handleRealizedPnL w (Symbol decision) ''long'' closedQty
                       (CurrentPrice marketData) tr2))"

definition executeCloseShortWithRecord ::
  "world \<Rightarrow> Decision \<Rightarrow> AutoTrader \<Rightarrow> error option \<times> AutoTrader" where
  "executeCloseShortWithRecord w decision tr =
     (case doMarketGet w (Symbol decision) tr of
        (Inl err, tr1) \<Rightarrow> (Some (AdapterError err), tr1)
      | (Inr marketData, tr1) \<Rightarrow>
          let closedQty = getPositionQuantity tr1 (Symbol decision) ''short'' in
          case doCloseShort w (Symbol decision) 0 tr1 of
            (Inl err, tr2) \<Rightarrow> (Some (AdapterError err), tr2)
          | (Inr order, tr2) \<Rightarrow>
              (None, handleRealizedPnL w (Symbol decision) ''short'' closedQty
                       (CurrentPrice marketData) tr2))"

text \<open>The search for the target position: the first one of the symbol with a non-zero amount.\<close>

definition findTargetPosition :: "position list \<Rightarrow> string \<Rightarrow> position option" where
  "findTargetPosition positions symbol =
     find (\<lambda>pos. pos_symbol pos = symbol \<and> pos_positionAmt pos \<noteq> 0) positions"

definition executeUpdateStopLossWithRecord ::
  "world \<Rightarrow> Decision \<Rightarrow> AutoTrader \<Rightarrow> error option \<times> AutoTrader" where
  "executeUpdateStopLossWithRecord w decision tr =
     (case doMarketGet w (Symbol decision) tr of
        (Inl err, tr1) \<Rightarrow> (Some (AdapterError err), tr1)
      | (Inr marketData, tr1) \<Rightarrow>
         (case doGetPositions w tr1 of
            (Inl err, tr2) \<Rightarrow> (Some (GetPositionsFailed err), tr2)
          | (Inr positions, tr2) \<Rightarrow>
             (case findTargetPosition positions (Symbol decision) of
                None \<Rightarrow> (Some (PositionNotFound (Symbol decision)), tr2)
              | Some targetPosition \<Rightarrow>
                  let positionSide = ToUpper (pos_side targetPosition);
                      positionAmt = pos_positionAmt targetPosition
                  in if positionSide = ''LONG'' \<and> NewStopLoss decision \<ge> CurrentPrice marketData
                     then (Some (LongStopNotBelowPrice (CurrentPrice marketData)
                                   (NewStopLoss decision)), tr2)
                     else if positionSide = ''SHORT'' \<and> NewStopLoss decision \<le> CurrentPrice marketData
                     then (Some (ShortStopNotAbovePrice (CurrentPrice marketData)
                                   (NewStopLoss decision)), tr2)
                     else
                       case ensureStopLossTightening tr2 (Symbol decision) positionSide
                              (NewStopLoss decision) of
                         Some err \<Rightarrow> (Some err, tr2)
                       | None \<Rightarrow>
                          (case doCancelStopOrders w (Symbol decision) tr2 of (_, tr3) \<Rightarrow>
                           let quantity = \<bar>positionAmt\<bar> in
                           case doSetStopLoss w (Symbol decision) positionSide quantity
                                  (NewStopLoss decision) tr3 of
                             (Some err, tr4) \<Rightarrow> (Some (SetStopLossFailed err), tr4)
                           | (None, tr4) \<Rightarrow>
                               (None, storeStopLoss (Symbol decision) positionSide
                                        (NewStopLoss decision) tr4)))))"

definition executeUpdateTakeProfitWithRecord ::
  "world \<Rightarrow> Decision \<Rightarrow> AutoTrader \<Rightarrow> error option \<times> AutoTrader" where
  "executeUpdateTakeProfitWithRecord w decision tr =
     (case doMarketGet w (Symbol decision) tr of
        (Inl err, tr1) \<Rightarrow> (Some (AdapterError err), tr1)
      | (Inr marketData, tr1) \<Rightarrow>
         (case doGetPositions w tr1 of
            (Inl err, tr2) \<Rightarrow> (Some (GetPositionsFailed err), tr2)
          | (Inr positions, tr2) \<Rightarrow>
             (case findTargetPosition positions (Symbol decision) of
                None \<Rightarrow> (Some (PositionNotFound (Symbol decision)), tr2)
              | Some targetPosition \<Rightarrow>
                  let positionSide = ToUpper (pos_side targetPosition);
                      positionAmt = pos_positionAmt targetPosition
                  in if positionSide = ''LONG'' \<and> NewTakeProfit decision \<le> CurrentPrice marketData
                     then (Some (LongTakeProfitNotAbovePrice (CurrentPrice marketData)
                                   (NewTakeProfit decision)), tr2)
                     else if positionSide = ''SHORT'' \<and> NewTakeProfit decision \<ge> CurrentPrice marketData
                     then (Some (ShortTakeProfitNotBelowPrice (CurrentPrice marketData)
                                   (NewTakeProfit decision)), tr2)
                     else
                       (case doCancelStopOrders w (Symbol decision) tr2 of (_, tr3) \<Rightarrow>
                        let quantity = \<bar>positionAmt\<bar> in
                        case doSetTakeProfit w (Symbol decision) positionSide quantity
                               (NewTakeProfit decision) tr3 of
                          (Some err, tr4) \<Rightarrow> (Some (SetTakeProfitFailed err), tr4)
                        | (None, tr4) \<Rightarrow>
                            (None, storeTakeProfit (Symbol decision) positionSide
                                     (NewTakeProfit decision) tr4)))))"

subsection \<open>Protective stop engine\<close>

record roiProfile =
  breakeven :: real
  lock30 :: real
  lock50 :: real
  drawdown :: real
  floor_pct :: real

definition roiProfileFor :: "int \<Rightarrow> roiProfile" where
  "roiProfileFor leverage =
     (if leverage \<le> 2 then
        \<lparr>breakeven = 6, lock30 = 8, lock50 = 12, drawdown = 40, floor_pct = 7 / 10\<rparr>
      else if leverage \<le> 5 then
        \<lparr>breakeven = 3, lock30 = 6, lock50 = 10, drawdown = 35, floor_pct = 2\<rparr>
      else if leverage \<le> 10 then
        \<lparr>breakeven = 2, lock30 = 4, lock50 = 7, drawdown = 30, floor_pct = 3\<rparr>
      else
        \<lparr>breakeven = 15 / 10, lock30 = 3, lock50 = 5, drawdown = 25, floor_pct = 35 / 10\<rparr>)"

definition autoProtectionBuffer :: "real \<Rightarrow> real \<Rightarrow> real" where
  "autoProtectionBuffer markPrice atr =
     (let buffer0 = markPrice * (2 / 10000);
          buffer1 = (if atr > 0 then max buffer0 (atr * (5 / 100)) else buffer0)
      in if buffer1 < 1 / 100 then 1 / 100 else buffer1)"

text \<open>
  \<open>pickTighterStop\<close>; its first test, \<open>math.IsNaN(candidate)\<close>, is never true of a real
  number.
\<close>

definition pickTighterStop :: "string \<Rightarrow> real \<Rightarrow> bool \<Rightarrow> real \<Rightarrow> real \<times> bool" where
  "pickTighterStop side current hasCurrent candidate =
     (if \<not> hasCurrent then (candidate, True)
      else if ToLower side = ''long'' then
        (if candidate > current + floatEpsilon then (candidate, True) else (current, hasCurrent))
      else
        (if candidate < current - floatEpsilon then (candidate, True) else (current, hasCurrent)))"

definition positionRoiPct :: "string \<Rightarrow> real \<Rightarrow> real \<Rightarrow> int \<Rightarrow> real" where
  "positionRoiPct side entryPrice markPrice leverage0 =
     (let leverage = (if leverage0 \<le> 0 then 1 else leverage0) in
      if ToLower side = ''long''
      then ((markPrice - entryPrice) / entryPrice) * of_int leverage * 100
      else ((entryPrice - markPrice) / entryPrice) * of_int leverage * 100)"

text \<open>A candidate is \<open>None\<close> where the source returns \<open>(0, false)\<close>.\<close>

definition atrStopCandidate ::
  "string \<Rightarrow> real \<Rightarrow> real \<Rightarrow> real \<Rightarrow> Data option \<Rightarrow> real option" where
  "atrStopCandidate side entryPrice markPrice gain data =
     (case data of
        None \<Rightarrow> None
      | Some d \<Rightarrow>
         (case MidTermContext d of
            None \<Rightarrow> None
          | Some mt \<Rightarrow>
              if mt_ATR14 mt \<le> 0 then None
              else
                let atr = mt_ATR14 mt in
                if gain \<le> 0 then None
                else
                  let target1 = (if gain \<ge> atr then entryPrice else 0);
                      target2 = (if gain \<ge> (15 / 10) * atr
                                 then (if ToLower side = ''long'' then entryPrice + (5 / 10) * atr
                                       else entryPrice - (5 / 10) * atr)
                                 else target1);
                      target3 = (if gain \<ge> 2 * atr
                                 then (if ToLower side = ''long'' then markPrice - (25 / 10) * atr
                                       else markPrice + (25 / 10) * atr)
                                 else target2);
                      hasCandidate = (gain \<ge> atr \<or> gain \<ge> (15 / 10) * atr \<or> gain \<ge> 2 * atr)
                  in if \<not> hasCandidate then None
                     else
                       let buffer = autoProtectionBuffer markPrice atr;
                           target4 = (if ToLower side = ''long''
                                      then min target3 (markPrice - buffer) else target3);
                           target5 = (if ToLower side = ''short''
                                      then max target4 (markPrice + buffer) else target4)
                       in Some target5))"

definition roiStopCandidate ::
  "string \<Rightarrow> real \<Rightarrow> real \<Rightarrow> int \<Rightarrow> real \<Rightarrow> real \<Rightarrow> real option" where
  "roiStopCandidate side entryPrice markPrice leverage roiPct gain =
     (let profile = roiProfileFor leverage in
      if roiPct < breakeven profile then None
      else if gain \<le> 0 then None
      else
        let candidate0 = entryPrice;
            candidate1 = (if roiPct \<ge> lock30 profile
                          then (if ToLower side = ''long'' then entryPrice + gain * (3 / 10)
                                else entryPrice - gain * (3 / 10))
                          else candidate0);
            candidate2 = (if roiPct \<ge> lock50 profile
                          then (if ToLower side = ''long'' then entryPrice + gain * (5 / 10)
                                else entryPrice - gain * (5 / 10))
                          else candidate1);
            candidate3 = (if floor_pct profile > 0 then
                            (let floorGain = (floor_pct profile / 100) / of_int leverage in
                             if ToLower side = ''long''
                             then max candidate2 (entryPrice * (1 + floorGain))
                             else min candidate2 (entryPrice * (1 - floorGain)))
                          else candidate2);
            buffer = autoProtectionBuffer markPrice gain;
            candidate4 = (if ToLower side = ''long'' \<and> candidate3 > markPrice - buffer
                          then markPrice - buffer else candidate3);
            candidate5 = (if ToLower side = ''short'' \<and> candidate4 < markPrice + buffer
                          then markPrice + buffer else candidate4)
        in Some candidate5)"

definition floatingGain :: "string \<Rightarrow> real \<Rightarrow> real \<Rightarrow> real" where
  "floatingGain side entryPrice markPrice =
     (if EqualFold side ''long'' then
        (if markPrice > entryPrice then markPrice - entryPrice else 0)
      else if entryPrice > markPrice then entryPrice - markPrice
      else 0)"

text \<open>\<open>dispatchAutoStopLoss\<close> logs the handler's error and goes on.\<close>

definition dispatchAutoStopLoss ::
  "world \<Rightarrow> string \<Rightarrow> string \<Rightarrow> real \<Rightarrow> string \<Rightarrow> AutoTrader \<Rightarrow> AutoTrader" where
  "dispatchAutoStopLoss w symbol side newStop reason tr =
     snd (executeUpdateStopLossWithRecord w
            \<lparr>Symbol = symbol, Action = ''update_stop_loss'', Leverage = 0, PositionSizeUSD = 0,
             RiskUSD = 0, StopLoss = 0, TakeProfit = 0, NewStopLoss = newStop,
             NewTakeProfit = 0, ClosePercentage = 0, Confidence = 0,
             Reasoning = reason\<rparr> tr)"

text \<open>
  In \<open>applyDynamicProtection\<close> the reason handed to \<open>dispatchAutoStopLoss\<close> is a fixed
  text here; the source formats the ROI into it.
\<close>

text \<open>\<open>math.Round\<close> (half away from zero) and the conversion \<open>int(x)\<close> (towards zero).\<close>

definition Round :: "real \<Rightarrow> real" where
  "Round x = (if x \<ge> 0 then of_int \<lfloor>x + 1 / 2\<rfloor> else of_int \<lceil>x - 1 / 2\<rceil>)"

definition toInt :: "real \<Rightarrow> int" where
  "toInt x = (if x \<ge> 0 then \<lfloor>x\<rfloor> else \<lceil>x\<rceil>)"

definition protectionLeverage :: "position \<Rightarrow> int" where
  "protectionLeverage pos =
     (case pos_leverage pos of
        Some lev \<Rightarrow>
          if lev > 0 then (let leverage = toInt (Round lev) in if leverage \<le> 0 then 1 else leverage)
          else 1
      | None \<Rightarrow> 1)"

definition applyDynamicProtection :: "world \<Rightarrow> position \<Rightarrow> AutoTrader \<Rightarrow> AutoTrader" where
  "applyDynamicProtection w pos tr =
     (let symbol = pos_symbol pos; side = pos_side pos;
          entryPrice = pos_entryPrice pos; markPrice = pos_markPrice pos;
          positionAmt = pos_positionAmt pos
      in if symbol = [] \<or> side = [] \<or> \<bar>positionAmt\<bar> < floatEpsilon then tr
      else
        let leverage = protectionLeverage pos;
            gain = floatingGain side entryPrice markPrice
        in if gain \<le> floatEpsilon then tr
        else
          case doMarketGet w symbol tr of
            (Inl err, tr1) \<Rightarrow> tr1
          | (Inr marketData, tr1) \<Rightarrow>
              let (currentStop, hasStop) =
                    (case getStopLoss tr1 symbol side of Some v \<Rightarrow> (v, True) | None \<Rightarrow> (0, False));
                  (targetStop1, targetExists1) =
                    (case atrStopCandidate side entryPrice markPrice gain (Some marketData) of
                       Some atrCandidate \<Rightarrow> pickTighterStop side currentStop hasStop atrCandidate
                     | None \<Rightarrow> (currentStop, hasStop));
                  roiPct = positionRoiPct side entryPrice markPrice leverage;
                  (targetStop, targetExists) =
                    (case roiStopCandidate side entryPrice markPrice leverage roiPct gain of
                       Some roiCandidate \<Rightarrow>
                         pickTighterStop side targetStop1 targetExists1 roiCandidate
                     | None \<Rightarrow> (targetStop1, targetExists1))
              in if \<not> targetExists then tr1
                 else if hasStop \<and> ToLower side = ''long'' \<and> targetStop \<le> currentStop + floatEpsilon
                 then tr1
                 else if hasStop \<and> ToLower side = ''short'' \<and> targetStop \<ge> currentStop - floatEpsilon
                 then tr1
                 else
                   let diff = \<bar>targetStop - currentStop\<bar> in
                   if hasStop \<and> diff < CurrentPrice marketData * (1 / 10000) then tr1
                   else dispatchAutoStopLoss w symbol side targetStop ''auto lock (ROI)'' tr1)"

definition evaluateSymbolProtection :: "world \<Rightarrow> string \<Rightarrow> AutoTrader \<Rightarrow> AutoTrader" where
  "evaluateSymbolProtection w symbol tr =
     (case doGetPositions w tr of
        (Inl err, tr1) \<Rightarrow> tr1
      | (Inr positions, tr1) \<Rightarrow>
          foldl (\<lambda>t pos. if pos_symbol pos = symbol then applyDynamicProtection w pos t else t)
            tr1 positions)"

definition executePartialCloseWithRecord ::
  "world \<Rightarrow> Decision \<Rightarrow> AutoTrader \<Rightarrow> error option \<times> AutoTrader" where
  "executePartialCloseWithRecord w decision tr =
     (if ClosePercentage decision \<le> 0 \<or> ClosePercentage decision > 100
      then (Some (ClosePercentageOutOfRange (ClosePercentage decision)), tr)
      else
        case doMarketGet w (Symbol decision) tr of
          (Inl err, tr1) \<Rightarrow> (Some (AdapterError err), tr1)
        | (Inr marketData, tr1) \<Rightarrow>
           (case doGetPositions w tr1 of
              (Inl err, tr2) \<Rightarrow> (Some (GetPositionsFailed err), tr2)
            | (Inr positions, tr2) \<Rightarrow>
               (case findTargetPosition positions (Symbol decision) of
                  None \<Rightarrow> (Some (PositionNotFound (Symbol decision)), tr2)
                | Some targetPosition \<Rightarrow>
                    let positionSide = ToUpper (pos_side targetPosition);
                        positionAmt = pos_positionAmt targetPosition;
                        totalQuantity = \<bar>positionAmt\<bar>;
                        closeQuantity0 = totalQuantity * (ClosePercentage decision / 100);
                        minQty = estimateStepSize (Symbol decision);
                        closeQuantity1 =
                          (if closeQuantity0 < minQty then
                             (if totalQuantity \<le> minQty + floatEpsilon then totalQuantity else minQty)
                           else closeQuantity0);
                        closeQuantity = roundQuantity (Symbol decision) closeQuantity1
                    in if closeQuantity \<le> 0 then (Some (CloseQuantityTooSmall minQty), tr2)
                       else
                         case (if positionSide = ''LONG''
                               then doCloseLong w (Symbol decision) closeQuantity tr2
                               else doCloseShort w (Symbol decision) closeQuantity tr2) of
                           (Inl err, tr3) \<Rightarrow> (Some (PartialCloseFailed err), tr3)
                         | (Inr order, tr3) \<Rightarrow>
                             (None,
                              evaluateSymbolProtection w (Symbol decision)
                                (handleRealizedPnL w (Symbol decision) (ToLower positionSide)
                                   closeQuantity (CurrentPrice marketData) tr3)))))"

definition executeDecisionWithRecord ::
  "world \<Rightarrow> Decision \<Rightarrow> AutoTrader \<Rightarrow> error option \<times> AutoTrader" where
  "executeDecisionWithRecord w decision tr =
     (if Action decision = ''open_long'' then executeOpenLongWithRecord w decision tr
      else if Action decision = ''open_short'' then executeOpenShortWithRecord w decision tr
      else if Action decision = ''close_long'' then executeCloseLongWithRecord w decision tr
      else if Action decision = ''close_short'' then executeCloseShortWithRecord w decision tr
      else if Action decision = ''update_stop_loss''
        then executeUpdateStopLossWithRecord w decision tr
      else if Action decision = ''update_take_profit''
        then executeUpdateTakeProfitWithRecord w decision tr
      else if Action decision = ''partial_close'' then executePartialCloseWithRecord w decision tr
      else if Action decision = ''hold'' \<or> Action decision = ''wait'' then (None, tr)
      else (Some (UnknownAction (Action decision)), tr))"

subsection \<open>Drawdown monitor\<close>

definition emergencyClosePosition ::
  "world \<Rightarrow> string \<Rightarrow> string \<Rightarrow> AutoTrader \<Rightarrow> error option \<times> AutoTrader" where
  "emergencyClosePosition w symbol side tr =
     (let normalizedSide = ToLower side;
          closedQty = getPositionQuantity tr symbol normalizedSide
      in case doMarketGet w symbol tr of (got, tr1) \<Rightarrow>
         let closePrice = (case got of Inr marketData \<Rightarrow> CurrentPrice marketData | Inl _ \<Rightarrow> 0);
             realize = (\<lambda>t. if closePrice > 0 \<and> closedQty > 0
                            then handleRealizedPnL w symbol normalizedSide closedQty closePrice t
                            else t)
         in if side = ''long'' then
              (case doCloseLong w symbol 0 tr1 of
                 (Inl err, tr2) \<Rightarrow> (Some (AdapterError err), tr2)
               | (Inr order, tr2) \<Rightarrow> (None, realize tr2))
            else if side = ''short'' then
              (case doCloseShort w symbol 0 tr1 of
                 (Inl err, tr2) \<Rightarrow> (Some (AdapterError err), tr2)
               | (Inr order, tr2) \<Rightarrow> (None, realize tr2))
            else (Some (UnknownSide side), tr1))"

definition monitorLeverage :: "position \<Rightarrow> int" where
  "monitorLeverage pos =
     (case pos_leverage pos of
        Some lev \<Rightarrow> if lev > 0 then toInt lev else 10
      | None \<Rightarrow> 10)"

text \<open>The body of the loop of \<open>checkPositionDrawdown\<close>, for one position.\<close>

definition checkPositionDrawdownStep :: "world \<Rightarrow> AutoTrader \<Rightarrow> position \<Rightarrow> AutoTrader" where
  "checkPositionDrawdownStep w tr pos =
     (let symbol = pos_symbol pos; side = pos_side pos;
          entryPrice = pos_entryPrice pos; markPrice = pos_markPrice pos;
          quantity = (if pos_positionAmt pos < 0 then - pos_positionAmt pos
                      else pos_positionAmt pos)
      in if quantity < floatEpsilon then tr
      else
        let leverage = monitorLeverage pos;
            currentPnLPct = positionRoiPct side entryPrice markPrice leverage;
            tr1 = UpdatePeakPnL symbol side currentPnLPct tr
        in case getPeakPnL tr1 symbol side of
             None \<Rightarrow> applyDynamicProtection w pos tr1
           | Some peakPnLPct \<Rightarrow>
               if peakPnLPct > 0 \<and> currentPnLPct < peakPnLPct then
                 (let drawdownPct = ((peakPnLPct - currentPnLPct) / peakPnLPct) * 100;
                      profile = roiProfileFor leverage
                  in if peakPnLPct \<ge> breakeven profile \<and> drawdownPct \<ge> drawdown profile then
                       (case emergencyClosePosition w symbol side tr1 of
                          (Some err, tr2) \<Rightarrow> applyDynamicProtection w pos tr2
                        | (None, tr2) \<Rightarrow> ClearPeakPnLCache symbol side tr2)
                     else applyDynamicProtection w pos tr1)
               else applyDynamicProtection w pos tr1)"

definition checkPositionDrawdown :: "world \<Rightarrow> AutoTrader \<Rightarrow> AutoTrader" where
  "checkPositionDrawdown w tr =
     (case doGetPositions w tr of
        (Inl err, tr1) \<Rightarrow> tr1
      | (Inr positions, tr1) \<Rightarrow> foldl (checkPositionDrawdownStep w) tr1 positions)"

subsection \<open>Auto take-profit synthesis\<close>

definition findPositionSide :: "PositionInfo list \<Rightarrow> string \<Rightarrow> string" where
  "findPositionSide positions symbol =
     (case find (\<lambda>pos. EqualFold (pi_Symbol pos) symbol \<and> pi_Quantity pos > 0) positions of
        Some pos \<Rightarrow> ToLower (pi_Side pos)
      | None \<Rightarrow> [])"

text \<open>
  The first loop of \<open>buildAutoTakeProfitDecisions\<close>: the keys of the positions for which
  the batch already holds an \<open>update_take_profit\<close>. The map \<open>existing\<close> of the source is
  the set of its keys.
\<close>

definition explicitTakeProfitKeys :: "Context \<Rightarrow> Decision list \<Rightarrow> string set" where
  "explicitTakeProfitKeys ctx base =
     foldl (\<lambda>existing d.
              if Action d \<noteq> ''update_take_profit'' then existing
              else
                let side0 = findPositionSide (Positions ctx) (Symbol d);
                    side = (if side0 = [] then ''long'' else side0);
                    key = ToUpper (Symbol d) @ ''_'' @ side
                in insert key existing)
       {} base"

text \<open>
  The body of the second loop for one position, in two parts. \<open>desiredTakeProfit\<close> is
  the part from \<open>getStopLoss\<close> to the computation of \<open>desiredTP\<close>; \<open>autoTakeProfitTarget\<close>
  adds the comparison with the cached take-profit. \<open>None\<close> is a \<open>continue\<close>.
\<close>

definition desiredTakeProfit :: "AutoTrader \<Rightarrow> Context \<Rightarrow> PositionInfo \<Rightarrow> real option" where
  "desiredTakeProfit tr ctx pos =
     (let side = ToLower (pi_Side pos) in
      case getStopLoss tr (pi_Symbol pos) side of
        None \<Rightarrow> None
      | Some stop \<Rightarrow>
          let entry = pi_EntryPrice pos;
              risk = (if side = ''long'' then entry - stop else stop - entry)
          in if risk \<le> floatEpsilon then None
          else
            let currentPrice =
                  (case MarketDataMap ctx of
                     None \<Rightarrow> pi_MarkPrice pos
                   | Some m \<Rightarrow>
                      (case m (pi_Symbol pos) of
                         Some data \<Rightarrow> if CurrentPrice data > 0 then CurrentPrice data
                                       else pi_MarkPrice pos
                       | None \<Rightarrow> pi_MarkPrice pos));
                favorable = (if side = ''long'' then currentPrice - entry else entry - currentPrice)
            in if favorable \<le> risk then None
            else
              let rMultiple = favorable / risk in
              if rMultiple \<ge> 3 \<or> rMultiple \<ge> 2 \<or> rMultiple \<ge> 15 / 10 then
                (let targetMultiple = (if rMultiple \<ge> 3 then rMultiple + 5 / 10
                                       else if rMultiple \<ge> 2 then 35 / 10
                                       else 25 / 10)
                 in if side = ''long'' then
                      (let desiredTP = entry + targetMultiple * risk in
                       Some (if desiredTP \<le> currentPrice then currentPrice + (3 / 10) * risk
                             else desiredTP))
                    else
                      (let desiredTP = entry - targetMultiple * risk in
                       Some (if desiredTP \<ge> currentPrice then currentPrice - (3 / 10) * risk
                             else desiredTP)))
              else None)"

definition autoTakeProfitTarget :: "AutoTrader \<Rightarrow> Context \<Rightarrow> PositionInfo \<Rightarrow> real option" where
  "autoTakeProfitTarget tr ctx pos =
     (let side = ToLower (pi_Side pos) in
      case desiredTakeProfit tr ctx pos of
        None \<Rightarrow> None
      | Some desiredTP \<Rightarrow>
         (case getTakeProfit tr (pi_Symbol pos) side of
            Some tp \<Rightarrow>
              if side = ''long'' \<and> desiredTP \<le> tp * (1 + 1 / 100000) then None
              else if side = ''short'' \<and> desiredTP \<ge> tp * (1 - 1 / 100000) then None
              else Some desiredTP
          | None \<Rightarrow> Some desiredTP))"

text \<open>
  The decision that the second loop appends for a position and a target. Its rationale
  is the tag of the source; the source formats the R-multiple after it.
\<close>

definition autoTakeProfitDecision :: "PositionInfo \<Rightarrow> real \<Rightarrow> Decision" where
  "autoTakeProfitDecision pos desiredTP =
     \<lparr>Symbol = pi_Symbol pos, Action = ''update_take_profit'', Leverage = 0,
      PositionSizeUSD = 0, RiskUSD = 0, StopLoss = 0, TakeProfit = 0,
      NewStopLoss = 0, NewTakeProfit = desiredTP, ClosePercentage = 0,
      Confidence = 0, Reasoning = ''[auto_tp]''\<rparr>"

definition autoTakeProfitStep ::
  "AutoTrader \<Rightarrow> Context \<Rightarrow> string set \<times> Decision list \<Rightarrow> PositionInfo
     \<Rightarrow> string set \<times> Decision list" where
  "autoTakeProfitStep tr ctx acc pos =
     (case acc of (existing, autoDecisions) \<Rightarrow>
      let side = ToLower (pi_Side pos);
          key = ToUpper (pi_Symbol pos) @ ''_'' @ side
      in if key \<in> existing then acc
         else
           case autoTakeProfitTarget tr ctx pos of
             None \<Rightarrow> acc
           | Some desiredTP \<Rightarrow>
               (insert key existing, autoDecisions @ [autoTakeProfitDecision pos desiredTP]))"

definition buildAutoTakeProfitDecisions ::
  "AutoTrader \<Rightarrow> Context option \<Rightarrow> Decision list \<Rightarrow> Decision list" where
  "buildAutoTakeProfitDecisions tr ctx base =
     (case ctx of
        None \<Rightarrow> []
      | Some c \<Rightarrow>
          snd (foldl (autoTakeProfitStep tr c) (explicitTakeProfitKeys c base, []) (Positions c)))"

subsection \<open>Notions used in the statements\<close>

text \<open>The priority number of the entry at an index of a batch.\<close>

abbreviation pr :: "Decision list \<Rightarrow> nat \<Rightarrow> int" where
  "pr xs k \<equiv> getActionPriority (Action (xs ! k))"

text \<open>
  \<open>sortedUpTo xs i\<close>: the invariant of the outer loop. Every entry before index \<open>i\<close> has
  a priority number no larger than that of any entry after it.
\<close>

definition sortedUpTo :: "Decision list \<Rightarrow> nat \<Rightarrow> bool" where
  "sortedUpTo xs i = (\<forall>a b. a < i \<and> a < b \<and> b < length xs \<longrightarrow> pr xs a \<le> pr xs b)"

text \<open>
  The two fallback candidates of \<open>allowedStopDistance\<close>, with 0 for a candidate that is
  not appended.
\<close>

definition midCandidate :: "Data \<Rightarrow> real" where
  "midCandidate d =
     (case MidTermContext d of
        Some mt \<Rightarrow> if mt_ATR14 mt > 0 then mt_ATR14 mt * (15 / 10) else 0
      | None \<Rightarrow> 0)"

definition priceCandidate :: "Data \<Rightarrow> real" where
  "priceCandidate d = (if CurrentPrice d > 0 then CurrentPrice d * (15 / 1000) else 0)"

subsection \<open>Scenarios\<close>

text \<open>
  Concrete inputs on which the theorems below are evaluated: market data of a symbol
  trading at 110, a long position entered at 100, a world in which every call succeeds,
  and an engine with empty caches; then the variants of them that the examples need (a
  world whose positions query fails, one that rejects a close, one whose position shrinks
  after a partial close, one that holds a long and a short of the same symbol; engines
  with some cache entries; decisions).
\<close>

definition btcData :: Data where
  "btcData = \<lparr>CurrentPrice = 110, CurrentMACD = 0,
     MidTermContext = Some \<lparr>mt_ATR14 = 2, mt_EMA20 = 110, mt_RSI7 = 50\<rparr>,
     LongerTermContext = Some \<lparr>lt_ATR14 = 5\<rparr>, IntradaySeries = None\<rparr>"

definition btcLong :: position where
  "btcLong = \<lparr>pos_symbol = ''BTCUSDT'', pos_side = ''long'', pos_entryPrice = 100,
     pos_markPrice = 110, pos_positionAmt = 1, pos_leverage = Some 10\<rparr>"

definition calmWorld :: world where
  "calmWorld = \<lparr>time_Now = (\<lambda>cs. 1000),
     market_Get = (\<lambda>cs symbol. Inr btcData),
     trader_GetPositions = (\<lambda>cs. Inr [btcLong]),
     trader_GetBalance = (\<lambda>cs. Inr \<lparr>bal_availableBalance = Some 100,
        bal_totalWalletBalance = Some 100, bal_totalUnrealizedProfit = Some 0\<rparr>),
     trader_SetMarginMode = (\<lambda>cs symbol isCross. None),
     trader_OpenLong = (\<lambda>cs symbol qty lev. Inr 1),
     trader_OpenShort = (\<lambda>cs symbol qty lev. Inr 2),
     trader_CloseLong = (\<lambda>cs symbol qty. Inr 3),
     trader_CloseShort = (\<lambda>cs symbol qty. Inr 4),
     trader_SetStopLoss = (\<lambda>cs symbol side qty price. None),
     trader_SetTakeProfit = (\<lambda>cs symbol side qty price. None),
     trader_CancelStopOrders = (\<lambda>cs symbol. None)\<rparr>"

definition freshTrader :: AutoTrader where
  "freshTrader = \<lparr>stopUntil = 0, consecutiveLosses = 0, peakPnLCache = Map.empty,
     positionMetaCache = Map.empty, stopLossCache = Map.empty, takeProfitCache = Map.empty,
     positionFirstSeenTime = Map.empty, IsCrossMargin = True, calls = []\<rparr>"

definition guardedTrader :: AutoTrader where
  "guardedTrader = freshTrader\<lparr>stopLossCache := [''BTCUSDT_long'' \<mapsto> 100]\<rparr>"

definition sameStopDecision :: Decision where
  "sameStopDecision = \<lparr>Symbol = ''BTCUSDT'', Action = ''update_stop_loss'', Leverage = 0,
     PositionSizeUSD = 0, RiskUSD = 0, StopLoss = 0, TakeProfit = 0, NewStopLoss = 100,
     NewTakeProfit = 0, ClosePercentage = 0, Confidence = 0, Reasoning = []\<rparr>"

definition wideStopData :: Data where
  "wideStopData = \<lparr>CurrentPrice = 1000, CurrentMACD = 0,
     MidTermContext = Some \<lparr>mt_ATR14 = 20, mt_EMA20 = 1000, mt_RSI7 = 50\<rparr>,
     LongerTermContext = Some \<lparr>lt_ATR14 = 10\<rparr>, IntradaySeries = None\<rparr>"

definition noAtrData :: Data where
  "noAtrData = \<lparr>CurrentPrice = 0, CurrentMACD = 0, MidTermContext = None,
     LongerTermContext = None, IntradaySeries = None\<rparr>"

definition wideStopDecision :: Decision where
  "wideStopDecision = \<lparr>Symbol = ''BTCUSDT'', Action = ''open_long'', Leverage = 10,
     PositionSizeUSD = 500, RiskUSD = 5, StopLoss = 980, TakeProfit = 1100, NewStopLoss = 0,
     NewTakeProfit = 0, ClosePercentage = 0, Confidence = 90, Reasoning = []\<rparr>"

definition btcOpenDecision :: Decision where
  "btcOpenDecision = \<lparr>Symbol = ''BTCUSDT'', Action = ''open_long'', Leverage = 10,
     PositionSizeUSD = 2000, RiskUSD = 10, StopLoss = 108, TakeProfit = 120, NewStopLoss = 0,
     NewTakeProfit = 0, ClosePercentage = 0, Confidence = 90, Reasoning = []\<rparr>"

definition peakedTrader :: AutoTrader where
  "peakedTrader = freshTrader\<lparr>
     peakPnLCache := [''BTCUSDT_long'' \<mapsto> 50],
     positionMetaCache := [''BTCUSDT_long'' \<mapsto> \<lparr>Side = ''long'', EntryPrice = 100, Quantity = 1\<rparr>],
     stopLossCache := [''BTCUSDT_long'' \<mapsto> 95],
     takeProfitCache := [''BTCUSDT_long'' \<mapsto> 130]\<rparr>"

definition closeLongDecision :: Decision where
  "closeLongDecision = \<lparr>Symbol = ''BTCUSDT'', Action = ''close_long'', Leverage = 0,
     PositionSizeUSD = 0, RiskUSD = 0, StopLoss = 0, TakeProfit = 0, NewStopLoss = 0,
     NewTakeProfit = 0, ClosePercentage = 0, Confidence = 0, Reasoning = []\<rparr>"

definition blindWorld :: world where
  "blindWorld = calmWorld\<lparr>trader_GetPositions := (\<lambda>cs. Inl ''timeout'')\<rparr>"

definition shrinkingWorld :: world where
  "shrinkingWorld = calmWorld\<lparr>trader_GetPositions :=
     (\<lambda>cs. if CloseLong ''BTCUSDT'' (3 / 10) \<in> set cs
           then Inr [btcLong\<lparr>pos_positionAmt := 7 / 10\<rparr>] else Inr [btcLong])\<rparr>"

definition partialCloseDecision :: Decision where
  "partialCloseDecision = \<lparr>Symbol = ''BTCUSDT'', Action = ''partial_close'', Leverage = 0,
     PositionSizeUSD = 0, RiskUSD = 0, StopLoss = 0, TakeProfit = 0, NewStopLoss = 0,
     NewTakeProfit = 0, ClosePercentage = 30, Confidence = 0, Reasoning = []\<rparr>"

definition trailingTrader :: AutoTrader where
  "trailingTrader = freshTrader\<lparr>
     stopLossCache := [''BTCUSDT_long'' \<mapsto> 95],
     takeProfitCache := [''BTCUSDT_long'' \<mapsto> 112]\<rparr>"

definition btcLongInfo :: PositionInfo where
  "btcLongInfo = \<lparr>pi_Symbol = ''BTCUSDT'', pi_Side = ''long'', pi_EntryPrice = 100,
     pi_MarkPrice = 110, pi_Quantity = 1\<rparr>"

definition btcContext :: Context where
  "btcContext = \<lparr>Positions = [btcLongInfo], MarketDataMap = None\<rparr>"

definition stuckWorld :: world where
  "stuckWorld = calmWorld\<lparr>trader_CloseLong := (\<lambda>cs symbol qty. Inl ''rejected'')\<rparr>"

definition btcShort :: position where
  "btcShort = \<lparr>pos_symbol = ''BTCUSDT'', pos_side = ''short'', pos_entryPrice = 120,
     pos_markPrice = 110, pos_positionAmt = - 1, pos_leverage = Some 10\<rparr>"

definition hedgeWorld :: world where
  "hedgeWorld = calmWorld\<lparr>trader_GetPositions := (\<lambda>cs. Inr [btcLong, btcShort])\<rparr>"

definition hedgeTrader :: AutoTrader where
  "hedgeTrader = freshTrader\<lparr>peakPnLCache := [''BTCUSDT_short'' \<mapsto> 200]\<rparr>"

definition retracedTrader :: AutoTrader where
  "retracedTrader = freshTrader\<lparr>peakPnLCache := [''BTCUSDT_long'' \<mapsto> 200]\<rparr>"

definition exampleBatch :: "Decision list" where
  "exampleBatch =
     [\<lparr>Symbol = ''X'', Action = ''open_long'', Leverage = 5, PositionSizeUSD = 100, RiskUSD = 1,
       StopLoss = 9, TakeProfit = 12, NewStopLoss = 0, NewTakeProfit = 0, ClosePercentage = 0,
       Confidence = 90, Reasoning = []\<rparr>,
      \<lparr>Symbol = ''Y'', Action = ''wait'', Leverage = 0, PositionSizeUSD = 0, RiskUSD = 0,
       StopLoss = 0, TakeProfit = 0, NewStopLoss = 0, NewTakeProfit = 0, ClosePercentage = 0,
       Confidence = 0, Reasoning = []\<rparr>,
      \<lparr>Symbol = ''X'', Action = ''close_long'', Leverage = 0, PositionSizeUSD = 0, RiskUSD = 0,
       StopLoss = 0, TakeProfit = 0, NewStopLoss = 0, NewTakeProfit = 0, ClosePercentage = 0,
       Confidence = 0, Reasoning = []\<rparr>]"

definition reopenedTrader :: AutoTrader where
  "reopenedTrader = freshTrader\<lparr>
     peakPnLCache := [''BTCUSDT_long'' \<mapsto> 50],
     positionMetaCache := [''BTCUSDT_long'' \<mapsto> \<lparr>Side = ''long'', EntryPrice = 110, Quantity = 1\<rparr>],
     stopLossCache := [''BTCUSDT_long'' \<mapsto> 108]\<rparr>"

definition freshLong :: position where
  "freshLong = \<lparr>pos_symbol = ''BTCUSDT'', pos_side = ''long'', pos_entryPrice = 110,
     pos_markPrice = 1105 / 10, pos_positionAmt = 1, pos_leverage = Some 10\<rparr>"

section \<open>Properties\<close>

subsection \<open>Case conversion\<close>

lemma toLowerChar_toUpperChar: "toLowerChar (toUpperChar c) = toLowerChar c"
proof (cases "map_of upperTable c")
  case None
  then show ?thesis by (simp add: toUpperChar_def)
next
  case (Some u)
  then have "(c, u) \<in> set upperTable" by (rule map_of_SomeD)
  then show ?thesis
    unfolding upperTable_def
    by (auto simp: toUpperChar_def toLowerChar_def upperTable_def lowerTable_def)
qed

lemma toLowerChar_idem: "toLowerChar (toLowerChar c) = toLowerChar c"
proof (cases "map_of lowerTable c")
  case None
  then show ?thesis by (simp add: toLowerChar_def)
next
  case (Some u)
  then have "(c, u) \<in> set lowerTable" by (rule map_of_SomeD)
  then show ?thesis
    unfolding lowerTable_def
    by (auto simp: toLowerChar_def lowerTable_def)
qed

lemma toUpperChar_idem: "toUpperChar (toUpperChar c) = toUpperChar c"
proof (cases "map_of upperTable c")
  case None
  then show ?thesis by (simp add: toUpperChar_def)
next
  case (Some u)
  then have "(c, u) \<in> set upperTable" by (rule map_of_SomeD)
  then show ?thesis
    unfolding upperTable_def
    by (auto simp: toUpperChar_def upperTable_def)
qed

lemma ToUpper_idem [simp]: "ToUpper (ToUpper s) = ToUpper s"
  by (simp add: ToUpper_def toUpperChar_idem)

lemma ToLower_ToUpper [simp]: "ToLower (ToUpper s) = ToLower s"
  by (simp add: ToLower_def ToUpper_def toLowerChar_toUpperChar)

lemma ToLower_idem [simp]: "ToLower (ToLower s) = ToLower s"
  by (simp add: ToLower_def toLowerChar_idem)

lemma positionKey_ToUpper [simp]: "positionKey symbol (ToUpper side) = positionKey symbol side"
  by (simp add: positionKey_def)

lemma positionKey_ToLower [simp]: "positionKey symbol (ToLower side) = positionKey symbol side"
  by (simp add: positionKey_def)

lemma case_long [simp]:
  "ToLower ''long'' = ''long''" "ToUpper ''long'' = ''LONG''" "ToLower ''LONG'' = ''long''"
  "ToLower ''short'' = ''short''" "ToUpper ''short'' = ''SHORT''" "ToLower ''SHORT'' = ''short''"
  "ToUpper ''LONG'' = ''LONG''" "ToUpper ''SHORT'' = ''SHORT''"
  "ToUpper ''BTCUSDT'' = ''BTCUSDT''"
  by (simp_all add: ToLower_def ToUpper_def toLowerChar_def toUpperChar_def lowerTable_def upperTable_def)

subsection \<open>What the calls and the cache operations leave unchanged\<close>

lemma issue_fields [simp]:
  "stopUntil (issue c tr) = stopUntil tr"
  "consecutiveLosses (issue c tr) = consecutiveLosses tr"
  "peakPnLCache (issue c tr) = peakPnLCache tr"
  "positionMetaCache (issue c tr) = positionMetaCache tr"
  "stopLossCache (issue c tr) = stopLossCache tr"
  "takeProfitCache (issue c tr) = takeProfitCache tr"
  "positionFirstSeenTime (issue c tr) = positionFirstSeenTime tr"
  "IsCrossMargin (issue c tr) = IsCrossMargin tr"
  "calls (issue c tr) = calls tr @ [c]"
  by (simp_all add: issue_def)

lemmas do_defs = doMarketGet_def doGetPositions_def doGetBalance_def doSetMarginMode_def
  doOpenLong_def doOpenShort_def doCloseLong_def doCloseShort_def doSetStopLoss_def
  doSetTakeProfit_def doCancelStopOrders_def

lemma ensureStopLossTightening_issue [simp]:
  "ensureStopLossTightening (issue c tr) symbol side newStop
     = ensureStopLossTightening tr symbol side newStop"
  by (simp add: ensureStopLossTightening_def)

lemma updateConsecutiveLosses_calls [simp]:
  "calls (updateConsecutiveLosses w pnl tr) = calls tr"
  by (simp add: updateConsecutiveLosses_def Let_def)

lemma updateConsecutiveLosses_frame [simp]:
  "peakPnLCache (updateConsecutiveLosses w pnl tr) = peakPnLCache tr"
  "positionMetaCache (updateConsecutiveLosses w pnl tr) = positionMetaCache tr"
  "stopLossCache (updateConsecutiveLosses w pnl tr) = stopLossCache tr"
  "takeProfitCache (updateConsecutiveLosses w pnl tr) = takeProfitCache tr"
  by (simp_all add: updateConsecutiveLosses_def Let_def)

lemma handleRealizedPnL_calls [simp]:
  "calls (handleRealizedPnL w symbol side q price tr) = calls tr"
  by (simp add: handleRealizedPnL_def Let_def split: option.splits)

lemma handleRealizedPnL_peak [simp]:
  "peakPnLCache (handleRealizedPnL w symbol side q price tr) = peakPnLCache tr"
  by (simp add: handleRealizedPnL_def Let_def split: option.splits)

lemma handleRealizedPnL_remaining:
  "q > 0 \<Longrightarrow> positionMetaCache tr (positionKey symbol side) = Some meta \<Longrightarrow>
   Quantity meta - q \<ge> floatEpsilon \<Longrightarrow>
   positionMetaCache (handleRealizedPnL w symbol side q price tr) (positionKey symbol side)
     = Some (meta\<lparr>Quantity := Quantity meta - q\<rparr>)"
  by (simp add: handleRealizedPnL_def Let_def)

lemma executeUpdateStopLossWithRecord_frame:
  "positionMetaCache (snd (executeUpdateStopLossWithRecord w d tr)) = positionMetaCache tr \<and>
   peakPnLCache (snd (executeUpdateStopLossWithRecord w d tr)) = peakPnLCache tr \<and>
   takeProfitCache (snd (executeUpdateStopLossWithRecord w d tr)) = takeProfitCache tr \<and>
   prefix (calls tr) (calls (snd (executeUpdateStopLossWithRecord w d tr)))"
  by (simp add: executeUpdateStopLossWithRecord_def do_defs Let_def storeStopLoss_def
      split: sum.splits option.splits prod.splits)

lemma dispatchAutoStopLoss_frame:
  "positionMetaCache (dispatchAutoStopLoss w symbol side newStop reason tr) = positionMetaCache tr \<and>
   peakPnLCache (dispatchAutoStopLoss w symbol side newStop reason tr) = peakPnLCache tr \<and>
   takeProfitCache (dispatchAutoStopLoss w symbol side newStop reason tr) = takeProfitCache tr \<and>
   prefix (calls tr) (calls (dispatchAutoStopLoss w symbol side newStop reason tr))"
  unfolding dispatchAutoStopLoss_def by (rule executeUpdateStopLossWithRecord_frame)

lemma applyDynamicProtection_frame:
  "positionMetaCache (applyDynamicProtection w pos tr) = positionMetaCache tr \<and>
   peakPnLCache (applyDynamicProtection w pos tr) = peakPnLCache tr \<and>
   takeProfitCache (applyDynamicProtection w pos tr) = takeProfitCache tr \<and>
   prefix (calls tr) (calls (applyDynamicProtection w pos tr))"
proof -
  have d: "positionMetaCache (dispatchAutoStopLoss w s x n r (issue c tr)) = positionMetaCache tr \<and>
     peakPnLCache (dispatchAutoStopLoss w s x n r (issue c tr)) = peakPnLCache tr \<and>
     takeProfitCache (dispatchAutoStopLoss w s x n r (issue c tr)) = takeProfitCache tr \<and>
     prefix (calls tr) (calls (dispatchAutoStopLoss w s x n r (issue c tr)))" for s x n r c
    using dispatchAutoStopLoss_frame[of w s x n r "issue c tr"]
    by (auto dest: append_prefixD)
  show ?thesis
    using d
    by (simp add: applyDynamicProtection_def doMarketGet_def Let_def
        split: sum.splits prod.splits)
qed

lemma applyDynamicProtection_fold_frame:
  "positionMetaCache (foldl (\<lambda>t pos. if P pos then applyDynamicProtection w pos t else t) tr ps)
     = positionMetaCache tr \<and>
   peakPnLCache (foldl (\<lambda>t pos. if P pos then applyDynamicProtection w pos t else t) tr ps)
     = peakPnLCache tr \<and>
   prefix (calls tr)
     (calls (foldl (\<lambda>t pos. if P pos then applyDynamicProtection w pos t else t) tr ps))"
proof (induction ps arbitrary: tr)
  case Nil
  show ?case by simp
next
  case (Cons pos ps)
  show ?case
    using Cons.IH[of "if P pos then applyDynamicProtection w pos tr else tr"]
      applyDynamicProtection_frame[of w pos tr]
    by (auto intro: prefix_order.trans)
qed

lemma evaluateSymbolProtection_frame:
  "positionMetaCache (evaluateSymbolProtection w symbol tr) = positionMetaCache tr \<and>
   peakPnLCache (evaluateSymbolProtection w symbol tr) = peakPnLCache tr \<and>
   prefix (calls tr) (calls (evaluateSymbolProtection w symbol tr))"
proof (cases "trader_GetPositions w (calls tr)")
  case (Inl msg)
  then show ?thesis by (simp add: evaluateSymbolProtection_def doGetPositions_def)
next
  case (Inr ps)
  show ?thesis
    using applyDynamicProtection_fold_frame[of "\<lambda>pos. pos_symbol pos = symbol" w
        "issue GetPositions tr" ps] Inr
    by (auto simp: evaluateSymbolProtection_def doGetPositions_def dest: append_prefixD)
qed

lemma UpdatePeakPnL_frame [simp]:
  "calls (UpdatePeakPnL symbol side c tr) = calls tr"
  "positionMetaCache (UpdatePeakPnL symbol side c tr) = positionMetaCache tr"
  "stopLossCache (UpdatePeakPnL symbol side c tr) = stopLossCache tr"
  by (simp_all add: UpdatePeakPnL_def Let_def split: option.splits)

lemma ClearPeakPnLCache_frame [simp]:
  "calls (ClearPeakPnLCache symbol side tr) = calls tr"
  "peakPnLCache (ClearPeakPnLCache symbol side tr) (positionKey symbol side) = None"
  by (simp_all add: ClearPeakPnLCache_def)

subsection \<open>C1: the ratchet guard of update_stop_loss\<close>

text \<open>
  C1, as the code has it. When \<open>update_stop_loss\<close> finds the position \<open>p\<close> and a stop is
  cached for its key, the update is accepted only if the new stop is not looser than the
  cached one by more than \<open>floatEpsilon\<close> (for a long, at least the cached stop minus
  \<open>floatEpsilon\<close>; otherwise at most the cached stop plus \<open>floatEpsilon\<close>), and the
  accepted stop is then the cached one. The guard rejects exactly the looser stops, with
  an error holding the cached and the new stop, which is the only such error the handler
  returns. With no cache entry for the key the guard passes.
\<close>

theorem stop_loss_ratchet:
  assumes gp: "trader_GetPositions w (calls tr @ [MarketGet (Symbol d)]) = Inr ps"
    and ft: "findTargetPosition ps (Symbol d) = Some p"
    and cached: "stopLossCache tr (positionKey (Symbol d) (pos_side p)) = Some previous"
  shows "(fst (executeUpdateStopLossWithRecord w d tr) = None \<longrightarrow>
           (if ToUpper (pos_side p) = ''LONG''
            then previous - floatEpsilon \<le> NewStopLoss d
            else NewStopLoss d \<le> previous + floatEpsilon) \<and>
           stopLossCache (snd (executeUpdateStopLossWithRecord w d tr))
             (positionKey (Symbol d) (pos_side p)) = Some (NewStopLoss d)) \<and>
         (ensureStopLossTightening tr (Symbol d) (ToUpper (pos_side p)) (NewStopLoss d) =
            (if (if ToUpper (pos_side p) = ''LONG''
                 then NewStopLoss d + floatEpsilon < previous
                 else NewStopLoss d - floatEpsilon > previous)
             then Some (StopLossNotTightened previous (NewStopLoss d)) else None)) \<and>
         (\<forall>a b. fst (executeUpdateStopLossWithRecord w d tr) = Some (StopLossNotTightened a b)
            \<longrightarrow> a = previous \<and> b = NewStopLoss d) \<and>
         (\<forall>t symbol side newStop. stopLossCache t (positionKey symbol side) = None
            \<longrightarrow> ensureStopLossTightening t symbol side newStop = None)"
proof -
  have guard: "ensureStopLossTightening tr (Symbol d) (ToUpper (pos_side p)) (NewStopLoss d) =
            (if (if ToUpper (pos_side p) = ''LONG''
                 then NewStopLoss d + floatEpsilon < previous
                 else NewStopLoss d - floatEpsilon > previous)
             then Some (StopLossNotTightened previous (NewStopLoss d)) else None)"
    using cached by (simp add: ensureStopLossTightening_def)
  have first: "\<forall>t symbol side newStop. stopLossCache t (positionKey symbol side) = None
            \<longrightarrow> ensureStopLossTightening t symbol side newStop = None"
    by (simp add: ensureStopLossTightening_def)
  have accepted: "fst (executeUpdateStopLossWithRecord w d tr) = None \<longrightarrow>
           (if ToUpper (pos_side p) = ''LONG''
            then previous - floatEpsilon \<le> NewStopLoss d
            else NewStopLoss d \<le> previous + floatEpsilon) \<and>
           stopLossCache (snd (executeUpdateStopLossWithRecord w d tr))
             (positionKey (Symbol d) (pos_side p)) = Some (NewStopLoss d)"
    using gp ft guard positionKey_ToUpper[of "Symbol d" "pos_side p"]
    by (auto simp: executeUpdateStopLossWithRecord_def do_defs Let_def storeStopLoss_def
        simp del: positionKey_ToUpper split: sum.splits option.splits if_splits)
  have cited: "\<forall>a b. fst (executeUpdateStopLossWithRecord w d tr) = Some (StopLossNotTightened a b)
            \<longrightarrow> a = previous \<and> b = NewStopLoss d"
    using gp ft guard
    by (auto simp: executeUpdateStopLossWithRecord_def do_defs Let_def
        split: sum.splits option.splits if_splits)
  from accepted guard cited first show ?thesis by blast
qed

theorem stop_loss_ratchet_witness:
  "trader_GetPositions calmWorld (calls guardedTrader @ [MarketGet (Symbol sameStopDecision)])
     = Inr [btcLong] \<and>
   findTargetPosition [btcLong] (Symbol sameStopDecision) = Some btcLong \<and>
   stopLossCache guardedTrader (positionKey (Symbol sameStopDecision) (pos_side btcLong)) = Some 100 \<and>
   fst (executeUpdateStopLossWithRecord calmWorld sameStopDecision guardedTrader) = None \<and>
   ToUpper (pos_side btcLong) = ''LONG'' \<and>
   (100 :: real) - floatEpsilon \<le> NewStopLoss sameStopDecision"
  using stop_loss_ratchet[of calmWorld guardedTrader sameStopDecision "[btcLong]" btcLong 100]
  by (simp add: calmWorld_def guardedTrader_def freshTrader_def sameStopDecision_def btcLong_def
      btcData_def findTargetPosition_def positionKey_def executeUpdateStopLossWithRecord_def
      do_defs issue_def ensureStopLossTightening_def floatEpsilon_def storeStopLoss_def)

text \<open>
  C1 as stated fails: a new stop equal to the cached one is accepted, and so is one that
  is looser than the cached one by less than \<open>floatEpsilon\<close>; neither is strictly more
  protective.
\<close>

theorem stop_loss_ratchet_counterexample:
  "fst (executeUpdateStopLossWithRecord calmWorld sameStopDecision guardedTrader) = None \<and>
   stopLossCache guardedTrader (positionKey ''BTCUSDT'' ''long'') = Some 100 \<and>
   stopLossCache (snd (executeUpdateStopLossWithRecord calmWorld sameStopDecision guardedTrader))
     (positionKey ''BTCUSDT'' ''long'') = Some 100 \<and>
   \<not> (NewStopLoss sameStopDecision > 100) \<and>
   fst (executeUpdateStopLossWithRecord calmWorld
          (sameStopDecision\<lparr>NewStopLoss := 100 - 1 / 2000000\<rparr>) guardedTrader) = None \<and>
   stopLossCache (snd (executeUpdateStopLossWithRecord calmWorld
          (sameStopDecision\<lparr>NewStopLoss := 100 - 1 / 2000000\<rparr>) guardedTrader))
     (positionKey ''BTCUSDT'' ''long'') = Some (100 - 1 / 2000000) \<and>
   (100 - 1 / 2000000 :: real) < 100"
  by (simp add: calmWorld_def guardedTrader_def freshTrader_def sameStopDecision_def btcLong_def
      btcData_def findTargetPosition_def positionKey_def executeUpdateStopLossWithRecord_def
      do_defs issue_def ensureStopLossTightening_def floatEpsilon_def storeStopLoss_def)

subsection \<open>C2: the drawdown monitor's emergency close\<close>

lemma roiProfileFor_positive:
  "0 < breakeven (roiProfileFor lev)" "0 < drawdown (roiProfileFor lev)"
  by (simp_all add: roiProfileFor_def)

lemma emergencyClosePosition_calls:
  assumes "side = ''long'' \<or> side = ''short''"
  shows "calls (snd (emergencyClosePosition w symbol side tr))
           = calls tr @ [MarketGet symbol,
                         if side = ''long'' then CloseLong symbol 0 else CloseShort symbol 0]"
  using assms
  by (auto simp: emergencyClosePosition_def do_defs Let_def split: sum.splits prod.splits)

lemma emergencyClosePosition_peak:
  "peakPnLCache (snd (emergencyClosePosition w symbol side tr)) = peakPnLCache tr"
  by (auto simp: emergencyClosePosition_def do_defs Let_def split: sum.splits prod.splits)

lemma emergencyClosePosition_failed:
  assumes "side = ''long'' \<or> side = ''short''"
    and "fst (emergencyClosePosition w symbol side tr) = Some err"
  shows "snd (emergencyClosePosition w symbol side tr)
           = issue (if side = ''long'' then CloseLong symbol 0 else CloseShort symbol 0)
               (issue (MarketGet symbol) tr)"
  using assms
  by (auto simp: emergencyClosePosition_def do_defs Let_def split: sum.splits prod.splits)

lemma emergencyClosePosition_extends:
  "prefix (calls tr) (calls (snd (emergencyClosePosition w symbol side tr)))"
  by (auto simp: emergencyClosePosition_def do_defs Let_def split: sum.splits prod.splits)

lemma checkPositionDrawdownStep_extends:
  "prefix (calls tr) (calls (checkPositionDrawdownStep w tr pos))"
proof -
  let ?u = "UpdatePeakPnL (pos_symbol pos) (pos_side pos)
              (positionRoiPct (pos_side pos) (pos_entryPrice pos) (pos_markPrice pos)
                 (monitorLeverage pos)) tr"
  have a: "prefix (calls tr) (calls (applyDynamicProtection w pos ?u))"
    using applyDynamicProtection_frame[of w pos ?u] by simp
  obtain e tr2 where r: "emergencyClosePosition w (pos_symbol pos) (pos_side pos) ?u = (e, tr2)"
    by (cases "emergencyClosePosition w (pos_symbol pos) (pos_side pos) ?u") auto
  have t2: "prefix (calls tr) (calls tr2)"
    using emergencyClosePosition_extends[of ?u w "pos_symbol pos" "pos_side pos"] r by simp
  have b: "prefix (calls tr) (calls (applyDynamicProtection w pos tr2))"
    using applyDynamicProtection_frame[of w pos tr2] t2 by (auto intro: prefix_order.trans)
  have c: "prefix (calls tr) (calls (ClearPeakPnLCache (pos_symbol pos) (pos_side pos) tr2))"
    using t2 by simp
  show ?thesis
    using a b c r
    by (auto simp: checkPositionDrawdownStep_def Let_def split: option.splits)
qed

lemma checkPositionDrawdown_fold_extends:
  "prefix (calls tr) (calls (foldl (checkPositionDrawdownStep w) tr ps))"
proof (induction ps arbitrary: tr)
  case Nil
  show ?case by simp
next
  case (Cons pos ps)
  show ?case
    using Cons.IH[of "checkPositionDrawdownStep w tr pos"]
      checkPositionDrawdownStep_extends[of tr w pos]
    by (auto intro: prefix_order.trans)
qed

text \<open>
  C2, as the code has it. Take an open position of side long or short with a non-zero
  entry price, whose cached peak ROI is at least the break-even threshold of its leverage
  bucket and whose current ROI has retraced from that peak by at least the bucket's
  drawdown percentage. Then the step of the monitor for this position reads the market
  price of the symbol and then issues the full close (quantity 0) of the position; these
  are its first two calls. When the close succeeds they are the only calls of the step,
  so the dynamic-protection stop update is skipped, and the peak entry is cleared. When
  the close fails the emergency close has changed nothing but the calls, the step goes
  on with the dynamic protection of the position, and the peak entry is still the cached
  peak afterwards. In a tick
  the step of a position starts from the state that the steps of the positions listed
  before it have left, and its two calls stand in the calls of the whole tick directly
  after theirs.
\<close>

theorem drawdown_emergency_close:
  fixes w :: world and tr :: AutoTrader and pos :: position and peak :: real
  defines "symbol \<equiv> pos_symbol pos"
  defines "side \<equiv> pos_side pos"
  defines "lev \<equiv> monitorLeverage pos"
  defines "cur \<equiv> positionRoiPct (pos_side pos) (pos_entryPrice pos) (pos_markPrice pos)
                    (monitorLeverage pos)"
  defines "tr1 \<equiv> UpdatePeakPnL (pos_symbol pos) (pos_side pos)
                    (positionRoiPct (pos_side pos) (pos_entryPrice pos) (pos_markPrice pos)
                       (monitorLeverage pos)) tr"
  defines "closeCall \<equiv> (if pos_side pos = ''long'' then CloseLong (pos_symbol pos) 0
                         else CloseShort (pos_symbol pos) 0)"
  assumes opened: "\<bar>pos_positionAmt pos\<bar> \<ge> floatEpsilon"
    and sd: "side = ''long'' \<or> side = ''short''"
    and entry: "pos_entryPrice pos \<noteq> 0"
    and cached: "peakPnLCache tr (positionKey symbol side) = Some peak"
    and be: "peak \<ge> breakeven (roiProfileFor lev)"
    and dd: "((peak - cur) / peak) * 100 \<ge> drawdown (roiProfileFor lev)"
  shows "checkPositionDrawdownStep w tr pos =
           (case emergencyClosePosition w symbol side tr1 of
              (None, tr2) \<Rightarrow> ClearPeakPnLCache symbol side tr2
            | (Some err, tr2) \<Rightarrow> applyDynamicProtection w pos tr2) \<and>
         calls (snd (emergencyClosePosition w symbol side tr1))
           = calls tr @ [MarketGet symbol, closeCall] \<and>
         prefix (calls tr @ [MarketGet symbol, closeCall])
           (calls (checkPositionDrawdownStep w tr pos)) \<and>
         (fst (emergencyClosePosition w symbol side tr1) = None \<longrightarrow>
            calls (checkPositionDrawdownStep w tr pos) = calls tr @ [MarketGet symbol, closeCall] \<and>
            peakPnLCache (checkPositionDrawdownStep w tr pos) (positionKey symbol side) = None) \<and>
         (\<forall>err. fst (emergencyClosePosition w symbol side tr1) = Some err \<longrightarrow>
            snd (emergencyClosePosition w symbol side tr1)
              = issue closeCall (issue (MarketGet symbol) tr1) \<and>
            checkPositionDrawdownStep w tr pos
              = applyDynamicProtection w pos (issue closeCall (issue (MarketGet symbol) tr1)) \<and>
            peakPnLCache (checkPositionDrawdownStep w tr pos) (positionKey symbol side)
              = Some peak) \<and>
         (\<forall>tr0 before after.
            trader_GetPositions w (calls tr0) = Inr (before @ pos # after) \<and>
            tr = foldl (checkPositionDrawdownStep w) (issue GetPositions tr0) before \<longrightarrow>
            prefix (calls tr @ [MarketGet symbol, closeCall]) (calls (checkPositionDrawdown w tr0)))"
proof -
  have ppos: "0 < peak" using be roiProfileFor_positive(1)[of lev] by linarith
  have "0 < ((peak - cur) / peak) * 100" using dd roiProfileFor_positive(2)[of lev] by linarith
  then have "0 < (peak - cur) / peak" by (simp only: zero_less_mult_iff) auto
  then have below: "cur < peak" using ppos by (simp add: zero_less_divide_iff)
  have kept: "getPeakPnL tr1 symbol side = Some peak"
    using cached below
    by (simp add: tr1_def cur_def symbol_def side_def getPeakPnL_def UpdatePeakPnL_def Let_def)
  have q: "\<not> (if pos_positionAmt pos < 0 then - pos_positionAmt pos else pos_positionAmt pos)
             < floatEpsilon"
    using opened by (auto simp: abs_if split: if_splits)
  have step: "checkPositionDrawdownStep w tr pos =
           (case emergencyClosePosition w symbol side tr1 of
              (None, tr2) \<Rightarrow> ClearPeakPnLCache symbol side tr2
            | (Some err, tr2) \<Rightarrow> applyDynamicProtection w pos tr2)"
    using q kept ppos below be dd
    unfolding checkPositionDrawdownStep_def Let_def tr1_def cur_def symbol_def side_def lev_def
    by (simp split: prod.splits option.splits)
  have ec: "calls (snd (emergencyClosePosition w symbol side tr1))
           = calls tr @ [MarketGet symbol, closeCall]"
    using emergencyClosePosition_calls[OF sd, of w symbol tr1]
    by (simp add: tr1_def closeCall_def symbol_def side_def)
  obtain e tr2 where r: "emergencyClosePosition w symbol side tr1 = (e, tr2)"
    by (cases "emergencyClosePosition w symbol side tr1") auto
  have tr2: "calls tr2 = calls tr @ [MarketGet symbol, closeCall]" using ec r by simp
  have pre: "prefix (calls tr @ [MarketGet symbol, closeCall])
           (calls (checkPositionDrawdownStep w tr pos))"
    using step r tr2 applyDynamicProtection_frame[of w pos tr2]
    by (cases e) auto
  have ok: "fst (emergencyClosePosition w symbol side tr1) = None \<longrightarrow>
            calls (checkPositionDrawdownStep w tr pos) = calls tr @ [MarketGet symbol, closeCall] \<and>
            peakPnLCache (checkPositionDrawdownStep w tr pos) (positionKey symbol side) = None"
    using step r tr2 by auto
  have tick: "\<forall>tr0 before after.
            trader_GetPositions w (calls tr0) = Inr (before @ pos # after) \<and>
            tr = foldl (checkPositionDrawdownStep w) (issue GetPositions tr0) before \<longrightarrow>
            prefix (calls tr @ [MarketGet symbol, closeCall]) (calls (checkPositionDrawdown w tr0))"
  proof (intro allI impI)
    fix tr0 before after
    assume h: "trader_GetPositions w (calls tr0) = Inr (before @ pos # after) \<and>
            tr = foldl (checkPositionDrawdownStep w) (issue GetPositions tr0) before"
    then have "checkPositionDrawdown w tr0
                 = foldl (checkPositionDrawdownStep w) (checkPositionDrawdownStep w tr pos) after"
      by (simp add: checkPositionDrawdown_def doGetPositions_def)
    then have "prefix (calls (checkPositionDrawdownStep w tr pos)) (calls (checkPositionDrawdown w tr0))"
      using checkPositionDrawdown_fold_extends[of "checkPositionDrawdownStep w tr pos" w after]
      by simp
    with pre show "prefix (calls tr @ [MarketGet symbol, closeCall])
                     (calls (checkPositionDrawdown w tr0))"
      by (rule prefix_order.trans)
  qed
  have failed: "\<forall>err. fst (emergencyClosePosition w symbol side tr1) = Some err \<longrightarrow>
            snd (emergencyClosePosition w symbol side tr1)
              = issue closeCall (issue (MarketGet symbol) tr1) \<and>
            checkPositionDrawdownStep w tr pos
              = applyDynamicProtection w pos (issue closeCall (issue (MarketGet symbol) tr1)) \<and>
            peakPnLCache (checkPositionDrawdownStep w tr pos) (positionKey symbol side)
              = Some peak"
  proof (intro allI impI)
    fix err
    assume f: "fst (emergencyClosePosition w symbol side tr1) = Some err"
    have s2: "snd (emergencyClosePosition w symbol side tr1)
              = issue closeCall (issue (MarketGet symbol) tr1)"
      using emergencyClosePosition_failed[OF sd f]
      by (simp add: closeCall_def symbol_def side_def)
    have st: "checkPositionDrawdownStep w tr pos
              = applyDynamicProtection w pos (issue closeCall (issue (MarketGet symbol) tr1))"
      using step f s2 r by auto
    have "peakPnLCache (issue closeCall (issue (MarketGet symbol) tr1)) (positionKey symbol side)
            = Some peak"
      using kept by (simp add: getPeakPnL_def)
    then have pk: "peakPnLCache (checkPositionDrawdownStep w tr pos) (positionKey symbol side)
              = Some peak"
      using st applyDynamicProtection_frame[of w pos
          "issue closeCall (issue (MarketGet symbol) tr1)"]
      by simp
    from s2 st pk show "snd (emergencyClosePosition w symbol side tr1)
              = issue closeCall (issue (MarketGet symbol) tr1) \<and>
            checkPositionDrawdownStep w tr pos
              = applyDynamicProtection w pos (issue closeCall (issue (MarketGet symbol) tr1)) \<and>
            peakPnLCache (checkPositionDrawdownStep w tr pos) (positionKey symbol side)
              = Some peak"
      by blast
  qed
  from step ec pre ok failed tick show ?thesis by blast
qed

lemma monitor_example_values:
  "monitorLeverage btcLong = 10"
  "positionRoiPct (pos_side btcLong) (pos_entryPrice btcLong) (pos_markPrice btcLong) 10 = 100"
  "breakeven (roiProfileFor 10) = 2" "drawdown (roiProfileFor 10) = 30"
  by (simp_all add: monitorLeverage_def toInt_def btcLong_def positionRoiPct_def roiProfileFor_def
      Let_def)

theorem drawdown_emergency_close_witness:
  "\<bar>pos_positionAmt btcLong\<bar> \<ge> floatEpsilon \<and>
   pos_side btcLong = ''long'' \<and>
   pos_entryPrice btcLong \<noteq> 0 \<and>
   peakPnLCache retracedTrader (positionKey (pos_symbol btcLong) (pos_side btcLong)) = Some 200 \<and>
   (200 :: real) \<ge> breakeven (roiProfileFor (monitorLeverage btcLong)) \<and>
   ((200 - positionRoiPct (pos_side btcLong) (pos_entryPrice btcLong) (pos_markPrice btcLong)
              (monitorLeverage btcLong)) / 200) * 100
      \<ge> drawdown (roiProfileFor (monitorLeverage btcLong)) \<and>
   calls (checkPositionDrawdownStep calmWorld retracedTrader btcLong)
     = calls retracedTrader @ [MarketGet (pos_symbol btcLong), CloseLong (pos_symbol btcLong) 0] \<and>
   peakPnLCache (checkPositionDrawdownStep calmWorld retracedTrader btcLong)
     (positionKey (pos_symbol btcLong) (pos_side btcLong)) = None \<and>
   fst (emergencyClosePosition stuckWorld (pos_symbol btcLong) (pos_side btcLong)
          (UpdatePeakPnL (pos_symbol btcLong) (pos_side btcLong)
             (positionRoiPct (pos_side btcLong) (pos_entryPrice btcLong)
                (pos_markPrice btcLong) (monitorLeverage btcLong)) retracedTrader))
     = Some (AdapterError ''rejected'') \<and>
   peakPnLCache (checkPositionDrawdownStep stuckWorld retracedTrader btcLong)
     (positionKey (pos_symbol btcLong) (pos_side btcLong)) = Some 200"
proof -
  have rejected: "fst (emergencyClosePosition stuckWorld (pos_symbol btcLong) (pos_side btcLong)
               (UpdatePeakPnL (pos_symbol btcLong) (pos_side btcLong)
                  (positionRoiPct (pos_side btcLong) (pos_entryPrice btcLong)
                     (pos_markPrice btcLong) (monitorLeverage btcLong)) retracedTrader))
        = Some (AdapterError ''rejected'')"
    by (simp add: emergencyClosePosition_def do_defs issue_def stuckWorld_def calmWorld_def
        btcLong_def Let_def split: prod.splits)
  have ok: "fst (emergencyClosePosition calmWorld (pos_symbol btcLong) (pos_side btcLong)
               (UpdatePeakPnL (pos_symbol btcLong) (pos_side btcLong)
                  (positionRoiPct (pos_side btcLong) (pos_entryPrice btcLong)
                     (pos_markPrice btcLong) (monitorLeverage btcLong)) retracedTrader)) = None"
    by (simp add: emergencyClosePosition_def do_defs issue_def calmWorld_def btcLong_def Let_def
        split: prod.splits)
  have cached: "peakPnLCache retracedTrader (positionKey (pos_symbol btcLong) (pos_side btcLong))
        = Some 200"
    by (simp add: retracedTrader_def freshTrader_def positionKey_def btcLong_def)
  have amt: "\<bar>pos_positionAmt btcLong\<bar> \<ge> floatEpsilon"
    by (simp add: btcLong_def floatEpsilon_def)
  have side: "pos_side btcLong = ''long''" by (simp add: btcLong_def)
  then have sd: "pos_side btcLong = ''long'' \<or> pos_side btcLong = ''short''" by simp
  have en: "pos_entryPrice btcLong \<noteq> 0" by (simp add: btcLong_def)
  have be: "(200 :: real) \<ge> breakeven (roiProfileFor (monitorLeverage btcLong))"
    by (simp add: monitor_example_values)
  have dd: "((200 - positionRoiPct (pos_side btcLong) (pos_entryPrice btcLong)
                (pos_markPrice btcLong) (monitorLeverage btcLong)) / 200) * 100
      \<ge> drawdown (roiProfileFor (monitorLeverage btcLong))"
    by (simp add: monitor_example_values)
  note th = drawdown_emergency_close[OF amt sd en cached be dd, of calmWorld]
  from th ok
  have "calls (checkPositionDrawdownStep calmWorld retracedTrader btcLong)
     = calls retracedTrader @ [MarketGet (pos_symbol btcLong),
         if pos_side btcLong = ''long'' then CloseLong (pos_symbol btcLong) 0
         else CloseShort (pos_symbol btcLong) 0] \<and>
   peakPnLCache (checkPositionDrawdownStep calmWorld retracedTrader btcLong)
     (positionKey (pos_symbol btcLong) (pos_side btcLong)) = None"
    by blast
  then have "calls (checkPositionDrawdownStep calmWorld retracedTrader btcLong)
     = calls retracedTrader @ [MarketGet (pos_symbol btcLong), CloseLong (pos_symbol btcLong) 0] \<and>
   peakPnLCache (checkPositionDrawdownStep calmWorld retracedTrader btcLong)
     (positionKey (pos_symbol btcLong) (pos_side btcLong)) = None"
    by (simp only: side simp_thms if_True)
  moreover from drawdown_emergency_close[OF amt sd en cached be dd, of stuckWorld] rejected
  have "peakPnLCache (checkPositionDrawdownStep stuckWorld retracedTrader btcLong)
     (positionKey (pos_symbol btcLong) (pos_side btcLong)) = Some 200"
    by blast
  ultimately show ?thesis using cached amt side en be dd rejected by blast
qed

text \<open>
  C2 as stated fails twice. First, the conditions hold and the adapter rejects the
  emergency close: the step goes on to the dynamic protection, which sets a stop at 105.
  Second, a long and a short position of one symbol are listed in this order and the
  conditions hold for the short one: the tick sets a stop for the long position before it
  closes the short one.
\<close>

theorem drawdown_emergency_close_counterexample:
  "\<bar>pos_positionAmt btcLong\<bar> \<ge> floatEpsilon \<and>
   peakPnLCache retracedTrader (positionKey (pos_symbol btcLong) (pos_side btcLong)) = Some 200 \<and>
   (200 :: real) \<ge> breakeven (roiProfileFor (monitorLeverage btcLong)) \<and>
   ((200 - positionRoiPct (pos_side btcLong) (pos_entryPrice btcLong) (pos_markPrice btcLong)
              (monitorLeverage btcLong)) / 200) * 100
      \<ge> drawdown (roiProfileFor (monitorLeverage btcLong)) \<and>
   calls (checkPositionDrawdownStep stuckWorld retracedTrader btcLong)
     = [MarketGet ''BTCUSDT'', CloseLong ''BTCUSDT'' 0, MarketGet ''BTCUSDT'',
        MarketGet ''BTCUSDT'', GetPositions, CancelStopOrders ''BTCUSDT'',
        SetStopLoss ''BTCUSDT'' ''LONG'' 1 105] \<and>
   \<bar>pos_positionAmt btcShort\<bar> \<ge> floatEpsilon \<and>
   peakPnLCache hedgeTrader (positionKey (pos_symbol btcShort) (pos_side btcShort)) = Some 200 \<and>
   (200 :: real) \<ge> breakeven (roiProfileFor (monitorLeverage btcShort)) \<and>
   ((200 - positionRoiPct (pos_side btcShort) (pos_entryPrice btcShort) (pos_markPrice btcShort)
              (monitorLeverage btcShort)) / 200) * 100
      \<ge> drawdown (roiProfileFor (monitorLeverage btcShort)) \<and>
   calls (checkPositionDrawdown hedgeWorld hedgeTrader)
     = [GetPositions, MarketGet ''BTCUSDT'', MarketGet ''BTCUSDT'', GetPositions,
        CancelStopOrders ''BTCUSDT'', SetStopLoss ''BTCUSDT'' ''LONG'' 1 105,
        MarketGet ''BTCUSDT'', CloseShort ''BTCUSDT'' 0]"
  by (simp add: monitor_example_values)
     (simp add: checkPositionDrawdown_def checkPositionDrawdownStep_def monitorLeverage_def
      toInt_def Round_def
      positionRoiPct_def roiProfileFor_def UpdatePeakPnL_def getPeakPnL_def positionKey_def
      emergencyClosePosition_def getPositionQuantity_def applyDynamicProtection_def
      protectionLeverage_def floatingGain_def EqualFold_def getStopLoss_def
      atrStopCandidate_def roiStopCandidate_def autoProtectionBuffer_def pickTighterStop_def
      dispatchAutoStopLoss_def executeUpdateStopLossWithRecord_def findTargetPosition_def
      ensureStopLossTightening_def storeStopLoss_def ClearPeakPnLCache_def do_defs issue_def
      stuckWorld_def hedgeWorld_def calmWorld_def retracedTrader_def hedgeTrader_def
      freshTrader_def btcLong_def btcShort_def btcData_def floatEpsilon_def Let_def)

subsection \<open>C3: the stop-distance check of the sizing guardrail\<close>

lemma allowedStopDistance_long:
  "LongerTermContext d = Some lt \<Longrightarrow> lt_ATR14 lt > 0
     \<Longrightarrow> allowedStopDistance (Some d) = Inr (lt_ATR14 lt)"
  by (simp add: allowedStopDistance_def Let_def)

lemma allowedStopDistance_fallback:
  "(case LongerTermContext d of Some lt \<Rightarrow> lt_ATR14 lt \<le> 0 | None \<Rightarrow> True)
     \<Longrightarrow> allowedStopDistance (Some d) =
         (if max (midCandidate d) (priceCandidate d) \<le> 0 then Inl NoStopDistance
          else Inr (max (midCandidate d) (priceCandidate d)))"
  by (auto simp: allowedStopDistance_def Let_def midCandidate_def priceCandidate_def
      split: option.splits)

lemma allowedStopDistance_pos: "allowedStopDistance data = Inr a \<Longrightarrow> 0 < a"
  by (auto simp: allowedStopDistance_def Let_def split: option.splits if_splits)

text \<open>
  C3, as the code has it. The allowed stop distance is the long-horizon ATR14 when that
  is present and positive; otherwise it is the larger of 1.5 times the mid-horizon ATR14
  (when present and positive) and 1.5% of the current price (when positive), and there is
  none when neither is available. For a decision that passes the leverage, buffer and
  minimum-notional checks of the sizing guardrail: with market data that gives an allowed
  distance, it is rejected exactly when its stop-loss distance exceeds the allowed one,
  and otherwise the adjusted decision is returned; with market data that gives no allowed
  distance it is rejected, the error carrying the reason; without market data it is
  rejected.
\<close>

theorem stop_distance_guardrail:
  fixes decision :: Decision and md :: Data and availableBalance totalEquity :: real
  defines "maxNotional \<equiv>
     (availableBalance - max (5 / 10) (availableBalance * (2 / 100))) * of_int (Leverage decision)"
  shows
   "(\<forall>lt. LongerTermContext md = Some lt \<and> lt_ATR14 lt > 0 \<longrightarrow>
        allowedStopDistance (Some md) = Inr (lt_ATR14 lt)) \<and>
    ((case LongerTermContext md of Some lt \<Rightarrow> lt_ATR14 lt \<le> 0 | None \<Rightarrow> True) \<longrightarrow>
        allowedStopDistance (Some md) =
          (if max (midCandidate md) (priceCandidate md) \<le> 0 then Inl NoStopDistance
           else Inr (max (midCandidate md) (priceCandidate md)))) \<and>
    (\<forall>allowed. Leverage decision > 0 \<and> maxNotional > 0 \<and>
        maxNotional \<ge> (if isMajorPair (Symbol decision) then 60 else 12) \<and>
        allowedStopDistance (Some md) = Inr allowed \<longrightarrow>
        ((\<exists>err. ensurePositionFitsBalance decision availableBalance totalEquity (Some md) = Inl err)
           \<longleftrightarrow> \<bar>StopLoss decision - CurrentPrice md\<bar> > allowed) \<and>
        (\<bar>StopLoss decision - CurrentPrice md\<bar> > allowed \<longrightarrow>
           ensurePositionFitsBalance decision availableBalance totalEquity (Some md)
             = Inl (StopDistanceTooWide \<bar>StopLoss decision - CurrentPrice md\<bar> allowed)) \<and>
        (\<not> \<bar>StopLoss decision - CurrentPrice md\<bar> > allowed \<longrightarrow>
           ensurePositionFitsBalance decision availableBalance totalEquity (Some md)
             = Inr (normalizeRisk totalEquity
                      (capRisk (availableBalance * (8 / 10))
                         (clampToMaxNotional maxNotional
                            (clampToEquity totalEquity decision)))))) \<and>
    (\<forall>err. Leverage decision > 0 \<and> maxNotional > 0 \<and>
        maxNotional \<ge> (if isMajorPair (Symbol decision) then 60 else 12) \<and>
        allowedStopDistance (Some md) = Inl err \<longrightarrow>
        ensurePositionFitsBalance decision availableBalance totalEquity (Some md)
          = Inl (StopDistanceUnverifiable (Some err))) \<and>
    (Leverage decision > 0 \<and> maxNotional > 0 \<and>
        maxNotional \<ge> (if isMajorPair (Symbol decision) then 60 else 12) \<and>
        (case LongerTermContext md of Some lt \<Rightarrow> lt_ATR14 lt \<le> 0 | None \<Rightarrow> True) \<and>
        max (midCandidate md) (priceCandidate md) \<le> 0 \<longrightarrow>
        ensurePositionFitsBalance decision availableBalance totalEquity (Some md)
          = Inl (StopDistanceUnverifiable (Some NoStopDistance))) \<and>
    (Leverage decision > 0 \<and> maxNotional > 0 \<and>
        maxNotional \<ge> (if isMajorPair (Symbol decision) then 60 else 12) \<longrightarrow>
        ensurePositionFitsBalance decision availableBalance totalEquity None
          = Inl MissingMarketData)"
proof -
  have a: "\<forall>lt. LongerTermContext md = Some lt \<and> lt_ATR14 lt > 0 \<longrightarrow>
        allowedStopDistance (Some md) = Inr (lt_ATR14 lt)"
    by (simp add: allowedStopDistance_long)
  have b: "(case LongerTermContext md of Some lt \<Rightarrow> lt_ATR14 lt \<le> 0 | None \<Rightarrow> True) \<longrightarrow>
        allowedStopDistance (Some md) =
          (if max (midCandidate md) (priceCandidate md) \<le> 0 then Inl NoStopDistance
           else Inr (max (midCandidate md) (priceCandidate md)))"
    using allowedStopDistance_fallback[of md] by blast
  have c: "\<forall>allowed. Leverage decision > 0 \<and> maxNotional > 0 \<and>
        maxNotional \<ge> (if isMajorPair (Symbol decision) then 60 else 12) \<and>
        allowedStopDistance (Some md) = Inr allowed \<longrightarrow>
        ((\<exists>err. ensurePositionFitsBalance decision availableBalance totalEquity (Some md) = Inl err)
           \<longleftrightarrow> \<bar>StopLoss decision - CurrentPrice md\<bar> > allowed) \<and>
        (\<bar>StopLoss decision - CurrentPrice md\<bar> > allowed \<longrightarrow>
           ensurePositionFitsBalance decision availableBalance totalEquity (Some md)
             = Inl (StopDistanceTooWide \<bar>StopLoss decision - CurrentPrice md\<bar> allowed)) \<and>
        (\<not> \<bar>StopLoss decision - CurrentPrice md\<bar> > allowed \<longrightarrow>
           ensurePositionFitsBalance decision availableBalance totalEquity (Some md)
             = Inr (normalizeRisk totalEquity
                      (capRisk (availableBalance * (8 / 10))
                         (clampToMaxNotional maxNotional
                            (clampToEquity totalEquity decision)))))"
  proof (intro allI impI)
    fix allowed
    assume h: "Leverage decision > 0 \<and> maxNotional > 0 \<and>
        maxNotional \<ge> (if isMajorPair (Symbol decision) then 60 else 12) \<and>
        allowedStopDistance (Some md) = Inr allowed"
    then have pos: "0 < allowed" using allowedStopDistance_pos by blast
    have lev: "0 < (of_int (Leverage decision) :: real)" using h by simp
    have usable: "availableBalance - max (5 / 10) (availableBalance * (2 / 100)) > 0"
      using h lev unfolding maxNotional_def by (simp add: zero_less_mult_iff)
    show "((\<exists>err. ensurePositionFitsBalance decision availableBalance totalEquity (Some md) = Inl err)
           \<longleftrightarrow> \<bar>StopLoss decision - CurrentPrice md\<bar> > allowed) \<and>
        (\<bar>StopLoss decision - CurrentPrice md\<bar> > allowed \<longrightarrow>
           ensurePositionFitsBalance decision availableBalance totalEquity (Some md)
             = Inl (StopDistanceTooWide \<bar>StopLoss decision - CurrentPrice md\<bar> allowed)) \<and>
        (\<not> \<bar>StopLoss decision - CurrentPrice md\<bar> > allowed \<longrightarrow>
           ensurePositionFitsBalance decision availableBalance totalEquity (Some md)
             = Inr (normalizeRisk totalEquity
                      (capRisk (availableBalance * (8 / 10))
                         (clampToMaxNotional maxNotional
                            (clampToEquity totalEquity decision)))))"
      using h pos usable unfolding maxNotional_def
      by (auto simp: ensurePositionFitsBalance_def Let_def)
  qed
  have pre: "0 < availableBalance - max (5 / 10) (availableBalance * (2 / 100))"
    if "Leverage decision > 0" "maxNotional > 0"
  proof -
    have "0 < (of_int (Leverage decision) :: real)" using that by simp
    then show ?thesis using that unfolding maxNotional_def by (simp add: zero_less_mult_iff)
  qed
  have d: "\<forall>err. Leverage decision > 0 \<and> maxNotional > 0 \<and>
        maxNotional \<ge> (if isMajorPair (Symbol decision) then 60 else 12) \<and>
        allowedStopDistance (Some md) = Inl err \<longrightarrow>
        ensurePositionFitsBalance decision availableBalance totalEquity (Some md)
          = Inl (StopDistanceUnverifiable (Some err))"
  proof (intro allI impI)
    fix err
    assume h: "Leverage decision > 0 \<and> maxNotional > 0 \<and>
        maxNotional \<ge> (if isMajorPair (Symbol decision) then 60 else 12) \<and>
        allowedStopDistance (Some md) = Inl err"
    then have "0 < availableBalance - max (5 / 10) (availableBalance * (2 / 100))"
      using pre by blast
    then show "ensurePositionFitsBalance decision availableBalance totalEquity (Some md)
          = Inl (StopDistanceUnverifiable (Some err))"
      using h unfolding maxNotional_def
      by (auto simp: ensurePositionFitsBalance_def Let_def)
  qed
  have e: "Leverage decision > 0 \<and> maxNotional > 0 \<and>
        maxNotional \<ge> (if isMajorPair (Symbol decision) then 60 else 12) \<and>
        (case LongerTermContext md of Some lt \<Rightarrow> lt_ATR14 lt \<le> 0 | None \<Rightarrow> True) \<and>
        max (midCandidate md) (priceCandidate md) \<le> 0 \<longrightarrow>
        ensurePositionFitsBalance decision availableBalance totalEquity (Some md)
          = Inl (StopDistanceUnverifiable (Some NoStopDistance))"
  proof (intro impI)
    assume h: "Leverage decision > 0 \<and> maxNotional > 0 \<and>
        maxNotional \<ge> (if isMajorPair (Symbol decision) then 60 else 12) \<and>
        (case LongerTermContext md of Some lt \<Rightarrow> lt_ATR14 lt \<le> 0 | None \<Rightarrow> True) \<and>
        max (midCandidate md) (priceCandidate md) \<le> 0"
    then have "allowedStopDistance (Some md) = Inl NoStopDistance"
      using allowedStopDistance_fallback[of md] by simp
    with h d show "ensurePositionFitsBalance decision availableBalance totalEquity (Some md)
          = Inl (StopDistanceUnverifiable (Some NoStopDistance))"
      by blast
  qed
  have f: "Leverage decision > 0 \<and> maxNotional > 0 \<and>
        maxNotional \<ge> (if isMajorPair (Symbol decision) then 60 else 12) \<longrightarrow>
        ensurePositionFitsBalance decision availableBalance totalEquity None
          = Inl MissingMarketData"
  proof (intro impI)
    assume h: "Leverage decision > 0 \<and> maxNotional > 0 \<and>
        maxNotional \<ge> (if isMajorPair (Symbol decision) then 60 else 12)"
    then have "0 < availableBalance - max (5 / 10) (availableBalance * (2 / 100))"
      using pre by blast
    then show "ensurePositionFitsBalance decision availableBalance totalEquity None
          = Inl MissingMarketData"
      using h unfolding maxNotional_def
      by (auto simp: ensurePositionFitsBalance_def Let_def)
  qed
  from a b c d e f show ?thesis by blast
qed

lemma isMajorPair_BTCUSDT [simp]: "isMajorPair ''BTCUSDT''"
  by (simp add: isMajorPair_def)

theorem stop_distance_guardrail_witness:
  "LongerTermContext wideStopData = Some \<lparr>lt_ATR14 = 10\<rparr> \<and>
   lt_ATR14 \<lparr>lt_ATR14 = 10\<rparr> > 0 \<and>
   allowedStopDistance (Some wideStopData) = Inr 10 \<and>
   Leverage wideStopDecision > 0 \<and>
   (100 - max (5 / 10) (100 * (2 / 100))) * of_int (Leverage wideStopDecision) = (980 :: real) \<and>
   \<bar>StopLoss wideStopDecision - CurrentPrice wideStopData\<bar> > 10 \<and>
   ensurePositionFitsBalance wideStopDecision 100 100 (Some wideStopData)
     = Inl (StopDistanceTooWide 20 10) \<and>
   LongerTermContext noAtrData = None \<and>
   max (midCandidate noAtrData) (priceCandidate noAtrData) \<le> 0 \<and>
   allowedStopDistance (Some noAtrData) = Inl NoStopDistance \<and>
   ensurePositionFitsBalance wideStopDecision 100 100 (Some noAtrData)
     = Inl (StopDistanceUnverifiable (Some NoStopDistance)) \<and>
   ensurePositionFitsBalance wideStopDecision 100 100 None = Inl MissingMarketData"
proof -
  have wide: "LongerTermContext wideStopData = Some \<lparr>lt_ATR14 = 10\<rparr> \<and>
      lt_ATR14 \<lparr>lt_ATR14 = 10\<rparr> > 0 \<and>
      allowedStopDistance (Some wideStopData) = Inr 10 \<and>
      Leverage wideStopDecision > 0 \<and>
      (100 - max (5 / 10) (100 * (2 / 100))) * of_int (Leverage wideStopDecision) = (980 :: real) \<and>
      \<bar>StopLoss wideStopDecision - CurrentPrice wideStopData\<bar> > 10 \<and>
      ensurePositionFitsBalance wideStopDecision 100 100 (Some wideStopData)
        = Inl (StopDistanceTooWide 20 10) \<and>
      ensurePositionFitsBalance wideStopDecision 100 100 None = Inl MissingMarketData"
    using stop_distance_guardrail[of wideStopData wideStopDecision 100 100]
    by (simp add: wideStopData_def wideStopDecision_def)
  have ctx: "LongerTermContext noAtrData = None"
    and cand: "max (midCandidate noAtrData) (priceCandidate noAtrData) \<le> 0"
    by (simp_all add: noAtrData_def midCandidate_def priceCandidate_def)
  have pre: "Leverage wideStopDecision > 0 \<and>
      (100 - max (5 / 10) (100 * (2 / 100))) * of_int (Leverage wideStopDecision) > (0 :: real) \<and>
      (100 - max (5 / 10) (100 * (2 / 100))) * of_int (Leverage wideStopDecision)
        \<ge> (if isMajorPair (Symbol wideStopDecision) then 60 else (12 :: real))"
    by (simp add: wideStopDecision_def)
  note th = stop_distance_guardrail[of noAtrData wideStopDecision 100 100]
  from th ctx cand have none: "allowedStopDistance (Some noAtrData) = Inl NoStopDistance"
    by simp
  from th pre none
  have rej: "ensurePositionFitsBalance wideStopDecision 100 100 (Some noAtrData)
     = Inl (StopDistanceUnverifiable (Some NoStopDistance))"
    by blast
  from wide ctx cand none rej show ?thesis by blast
qed

text \<open>
  C3 as stated fails twice. With a long-horizon ATR14 of 10, a mid-horizon ATR14 of 20
  and a price of 1000 the allowed distance is 10, not the larger 30, and a stop 20 away
  is rejected. And a decision whose stop is only 5 away is rejected all the same when its
  leverage is not set.
\<close>

theorem stop_distance_guardrail_counterexample:
  "allowedStopDistance (Some wideStopData) = Inr 10 \<and>
   max (10 :: real) (max ((15 / 10) * 20) ((15 / 1000) * 1000)) = 30 \<and>
   \<bar>StopLoss wideStopDecision - CurrentPrice wideStopData\<bar> = 20 \<and>
   ensurePositionFitsBalance wideStopDecision 100 100 (Some wideStopData)
     = Inl (StopDistanceTooWide 20 10) \<and>
   \<bar>StopLoss (wideStopDecision\<lparr>StopLoss := 995, Leverage := 0\<rparr>) - CurrentPrice wideStopData\<bar> = 5 \<and>
   ensurePositionFitsBalance (wideStopDecision\<lparr>StopLoss := 995, Leverage := 0\<rparr>) 100 100
     (Some wideStopData) = Inl LeverageNotSet"
  by (simp add: wideStopData_def wideStopDecision_def allowedStopDistance_def
      ensurePositionFitsBalance_def Let_def)

subsection \<open>C4: the circuit breaker\<close>

text \<open>
  C4, as the code has it. A loss of at least \<open>floatEpsilon\<close> increments the streak; at
  streak 2, 3 and 4 or more it sets \<open>stopUntil\<close> to now plus 45 minutes, 24 hours and
  72 hours; at streak 1 it leaves \<open>stopUntil\<close> as it was. A gain of at least
  \<open>floatEpsilon\<close> resets the streak to 0 and leaves \<open>stopUntil\<close> as it was; a result
  smaller than \<open>floatEpsilon\<close> in absolute value changes nothing. Three losses in a row
  from streak 0, with any calls issued in between, leave \<open>stopUntil\<close> at 24 hours after
  the time of the third; loss, gain, loss leaves the streak at 1 and \<open>stopUntil\<close>
  untouched. \<open>handleRealizedPnL\<close> feeds the breaker the
  signed result of the closed quantity against the cached entry price.
\<close>

theorem circuit_breaker_schedule:
  fixes w :: world and tr :: AutoTrader and pnl :: real
  defines "u \<equiv> updateConsecutiveLosses w pnl tr"
  defines "now \<equiv> time_Now w (calls tr)"
  shows
   "(pnl \<le> - floatEpsilon \<longrightarrow>
       consecutiveLosses u = consecutiveLosses tr + 1 \<and>
       (consecutiveLosses u \<le> 1 \<longrightarrow> stopUntil u = stopUntil tr) \<and>
       (consecutiveLosses u = 2 \<longrightarrow> stopUntil u = now + 45 * Minute) \<and>
       (consecutiveLosses u = 3 \<longrightarrow> stopUntil u = now + 24 * Hour) \<and>
       (consecutiveLosses u \<ge> 4 \<longrightarrow> stopUntil u = now + 72 * Hour)) \<and>
    (pnl \<ge> floatEpsilon \<longrightarrow> consecutiveLosses u = 0 \<and> stopUntil u = stopUntil tr) \<and>
    (\<bar>pnl\<bar> < floatEpsilon \<longrightarrow> u = tr) \<and>
    (\<forall>l1 l2 l3 cs2 cs3. consecutiveLosses tr = 0 \<and> l1 \<le> - floatEpsilon \<and>
        l2 \<le> - floatEpsilon \<and> l3 \<le> - floatEpsilon \<longrightarrow>
        stopUntil (updateConsecutiveLosses w l3
          ((updateConsecutiveLosses w l2
              ((updateConsecutiveLosses w l1 tr)\<lparr>calls := cs2\<rparr>))\<lparr>calls := cs3\<rparr>))
          = time_Now w cs3 + 24 * Hour) \<and>
    (\<forall>l1 g l2 cs2 cs3. consecutiveLosses tr = 0 \<and> l1 \<le> - floatEpsilon \<and>
        g \<ge> floatEpsilon \<and> l2 \<le> - floatEpsilon \<longrightarrow>
        stopUntil (updateConsecutiveLosses w l2
          ((updateConsecutiveLosses w g
              ((updateConsecutiveLosses w l1 tr)\<lparr>calls := cs2\<rparr>))\<lparr>calls := cs3\<rparr>))
          = stopUntil tr \<and>
        consecutiveLosses (updateConsecutiveLosses w l2
          ((updateConsecutiveLosses w g
              ((updateConsecutiveLosses w l1 tr)\<lparr>calls := cs2\<rparr>))\<lparr>calls := cs3\<rparr>))
          = 1) \<and>
    (\<forall>symbol side q price meta.
        q > 0 \<and> positionMetaCache tr (positionKey symbol side) = Some meta \<longrightarrow>
        (let realized = (if ToLower side = ''long'' then (price - EntryPrice meta) * q
                         else (EntryPrice meta - price) * q);
             h = handleRealizedPnL w symbol side q price tr
         in consecutiveLosses h = consecutiveLosses (updateConsecutiveLosses w realized tr) \<and>
            stopUntil h = stopUntil (updateConsecutiveLosses w realized tr)))"
proof -
  have eps: "0 < floatEpsilon" by (simp add: floatEpsilon_def)
  have pos: "0 < Minute" "0 < Hour" by (simp_all add: Minute_def Hour_def)
  have loss: "pnl \<le> - floatEpsilon \<longrightarrow>
       consecutiveLosses u = consecutiveLosses tr + 1 \<and>
       (consecutiveLosses u \<le> 1 \<longrightarrow> stopUntil u = stopUntil tr) \<and>
       (consecutiveLosses u = 2 \<longrightarrow> stopUntil u = now + 45 * Minute) \<and>
       (consecutiveLosses u = 3 \<longrightarrow> stopUntil u = now + 24 * Hour) \<and>
       (consecutiveLosses u \<ge> 4 \<longrightarrow> stopUntil u = now + 72 * Hour)"
    using eps pos by (auto simp: u_def now_def updateConsecutiveLosses_def Let_def)
  have gain: "pnl \<ge> floatEpsilon \<longrightarrow> consecutiveLosses u = 0 \<and> stopUntil u = stopUntil tr"
    using eps by (auto simp: u_def updateConsecutiveLosses_def Let_def)
  have small: "\<bar>pnl\<bar> < floatEpsilon \<longrightarrow> u = tr"
    by (simp add: u_def updateConsecutiveLosses_def)
  have three: "\<forall>l1 l2 l3 cs2 cs3. consecutiveLosses tr = 0 \<and> l1 \<le> - floatEpsilon \<and>
        l2 \<le> - floatEpsilon \<and> l3 \<le> - floatEpsilon \<longrightarrow>
        stopUntil (updateConsecutiveLosses w l3
          ((updateConsecutiveLosses w l2
              ((updateConsecutiveLosses w l1 tr)\<lparr>calls := cs2\<rparr>))\<lparr>calls := cs3\<rparr>))
          = time_Now w cs3 + 24 * Hour"
    using eps pos by (auto simp: updateConsecutiveLosses_def Let_def)
  have reset: "\<forall>l1 g l2 cs2 cs3. consecutiveLosses tr = 0 \<and> l1 \<le> - floatEpsilon \<and>
        g \<ge> floatEpsilon \<and> l2 \<le> - floatEpsilon \<longrightarrow>
        stopUntil (updateConsecutiveLosses w l2
          ((updateConsecutiveLosses w g
              ((updateConsecutiveLosses w l1 tr)\<lparr>calls := cs2\<rparr>))\<lparr>calls := cs3\<rparr>))
          = stopUntil tr \<and>
        consecutiveLosses (updateConsecutiveLosses w l2
          ((updateConsecutiveLosses w g
              ((updateConsecutiveLosses w l1 tr)\<lparr>calls := cs2\<rparr>))\<lparr>calls := cs3\<rparr>))
          = 1"
    using eps pos by (auto simp: updateConsecutiveLosses_def Let_def)
  have fed: "\<forall>symbol side q price meta.
        q > 0 \<and> positionMetaCache tr (positionKey symbol side) = Some meta \<longrightarrow>
        (let realized = (if ToLower side = ''long'' then (price - EntryPrice meta) * q
                         else (EntryPrice meta - price) * q);
             h = handleRealizedPnL w symbol side q price tr
         in consecutiveLosses h = consecutiveLosses (updateConsecutiveLosses w realized tr) \<and>
            stopUntil h = stopUntil (updateConsecutiveLosses w realized tr))"
    by (simp add: handleRealizedPnL_def updateConsecutiveLosses_def Let_def)
  from loss gain small three reset fed show ?thesis by blast
qed

theorem circuit_breaker_schedule_witness:
  "(- 1 :: real) \<le> - floatEpsilon \<and> consecutiveLosses freshTrader = 0 \<and>
   stopUntil (updateConsecutiveLosses calmWorld (- 1)
     (updateConsecutiveLosses calmWorld (- 1) (updateConsecutiveLosses calmWorld (- 1) freshTrader)))
     = 1000 + 24 * Hour \<and>
   consecutiveLosses (updateConsecutiveLosses calmWorld (- 1) freshTrader) = 1 \<and>
   stopUntil (updateConsecutiveLosses calmWorld (- 1) freshTrader) = stopUntil freshTrader \<and>
   (1 :: real) \<ge> floatEpsilon \<and>
   consecutiveLosses (updateConsecutiveLosses calmWorld 1
      (updateConsecutiveLosses calmWorld (- 1) freshTrader)) = 0"
  using circuit_breaker_schedule[of "- 1" calmWorld freshTrader]
    circuit_breaker_schedule[of 1 calmWorld "updateConsecutiveLosses calmWorld (- 1) freshTrader"]
  by (simp add: floatEpsilon_def freshTrader_def calmWorld_def updateConsecutiveLosses_def
      Let_def Hour_def Minute_def)

text \<open>
  C4 as stated fails twice: the first loss does not set \<open>stopUntil\<close> to now plus 0, and
  a gain below \<open>floatEpsilon\<close> does not reset the streak.
\<close>

theorem circuit_breaker_counterexample:
  "stopUntil (updateConsecutiveLosses calmWorld (- 1) freshTrader)
     \<noteq> time_Now calmWorld (calls freshTrader) + 0 \<and>
   consecutiveLosses (updateConsecutiveLosses calmWorld (- 1) freshTrader) = 1 \<and>
   (0::real) < 1 / 10000000 \<and>
   consecutiveLosses (updateConsecutiveLosses calmWorld (1 / 10000000)
      (freshTrader\<lparr>consecutiveLosses := 2\<rparr>)) \<noteq> 0"
  by (simp add: updateConsecutiveLosses_def floatEpsilon_def freshTrader_def calmWorld_def Let_def)

subsection \<open>C5: the priority sort\<close>

lemma mset_sortInner: "i < length xs \<Longrightarrow> mset (sortInner xs i j) = mset xs"
proof (induction xs i j rule: sortInner.induct)
  case (1 srt i j)
  show ?case
  proof (cases "j < length srt")
    case True
    with "1.IH" "1.prems" show ?thesis
      by (subst sortInner.simps) (simp add: mset_swap)
  next
    case False
    then show ?thesis by (subst sortInner.simps) simp
  qed
qed

lemma sortInner_prefix: "i < j \<Longrightarrow> k < i \<Longrightarrow> sortInner xs i j ! k = xs ! k"
proof (induction xs i j rule: sortInner.induct)
  case (1 srt i j)
  show ?case
  proof (cases "j < length srt")
    case True
    with "1.IH" "1.prems" show ?thesis
      by (subst sortInner.simps) simp
  next
    case False
    then show ?thesis by (subst sortInner.simps) simp
  qed
qed

lemma sortInner_from:
  "i < j \<Longrightarrow> i \<le> k \<Longrightarrow> k < length xs \<Longrightarrow>
   \<exists>k'. i \<le> k' \<and> k' < length xs \<and> sortInner xs i j ! k = xs ! k'"
proof (induction xs i j arbitrary: k rule: sortInner.induct)
  case (1 srt i j)
  show ?case
  proof (cases "j < length srt")
    case False
    then show ?thesis using "1.prems" by (subst sortInner.simps) auto
  next
    case True
    let ?ys = "if pr srt i > pr srt j then srt[i := srt ! j, j := srt ! i] else srt"
    have len: "length ?ys = length srt" by simp
    from "1.IH"[OF True, of k] "1.prems" True len
    obtain k' where k': "i \<le> k'" "k' < length srt" "sortInner ?ys i (j + 1) ! k = ?ys ! k'"
      by auto
    have "?ys ! k' = srt ! k' \<or> ?ys ! k' = srt ! i \<or> ?ys ! k' = srt ! j"
      using k' True by (auto simp: nth_list_update)
    then have "\<exists>k''. i \<le> k'' \<and> k'' < length srt \<and> ?ys ! k' = srt ! k''"
    proof (elim disjE)
      assume "?ys ! k' = srt ! k'"
      with k' show ?thesis by blast
    next
      assume "?ys ! k' = srt ! i"
      moreover have "i < length srt" using True "1.prems"(1) by simp
      ultimately show ?thesis by blast
    next
      assume "?ys ! k' = srt ! j"
      moreover have "i \<le> j" using "1.prems"(1) by simp
      ultimately show ?thesis using True by blast
    qed
    then show ?thesis using k'(3) True by (subst sortInner.simps) auto
  qed
qed

lemma sortInner_min:
  "i < j \<Longrightarrow> i < length xs \<Longrightarrow> (\<forall>k. i < k \<and> k < j \<longrightarrow> pr xs i \<le> pr xs k) \<Longrightarrow>
   i < k \<Longrightarrow> k < length xs \<Longrightarrow> pr (sortInner xs i j) i \<le> pr (sortInner xs i j) k"
proof (induction xs i j arbitrary: k rule: sortInner.induct)
  case (1 srt i j)
  show ?case
  proof (cases "j < length srt")
    case False
    then show ?thesis using "1.prems" by (subst (1 2) sortInner.simps) auto
  next
    case True
    let ?ys = "if pr srt i > pr srt j then srt[i := srt ! j, j := srt ! i] else srt"
    have inv: "\<forall>k. i < k \<and> k < j + 1 \<longrightarrow> pr ?ys i \<le> pr ?ys k"
    proof (intro allI impI)
      fix k assume k: "i < k \<and> k < j + 1"
      show "pr ?ys i \<le> pr ?ys k"
      proof (cases "k = j")
        case True
        then show ?thesis using \<open>j < length srt\<close> "1.prems"(1,2)
          by (auto simp: nth_list_update)
      next
        case False
        with k have kj: "i < k" "k < j" by auto
        with "1.prems"(3) have "pr srt i \<le> pr srt k" by blast
        then show ?thesis using kj True "1.prems"(1,2)
          by (auto simp: nth_list_update)
      qed
    qed
    have "pr (sortInner ?ys i (j + 1)) i \<le> pr (sortInner ?ys i (j + 1)) k"
      using "1.IH"[OF True _ _ inv, of k] "1.prems" True by simp
    then show ?thesis using True by (subst (1 2) sortInner.simps) simp
  qed
qed

lemma sortedUpTo_step:
  assumes inv: "sortedUpTo xs i" and i: "i + 1 < length xs"
  shows "sortedUpTo (sortInner xs i (i + 1)) (i + 1)"
  unfolding sortedUpTo_def
proof (intro allI impI)
  fix a b
  let ?ys = "sortInner xs i (i + 1)"
  assume ab: "a < i + 1 \<and> a < b \<and> b < length ?ys"
  show "pr ?ys a \<le> pr ?ys b"
  proof (cases "a = i")
    case True
    then show ?thesis using sortInner_min[of i "i + 1" xs b] ab i by auto
  next
    case False
    with ab have a: "a < i" by simp
    then have ya: "?ys ! a = xs ! a" by (simp add: sortInner_prefix)
    show ?thesis
    proof (cases "b < i")
      case True
      then have "?ys ! b = xs ! b" by (simp add: sortInner_prefix)
      with ya inv a ab show ?thesis by (auto simp: sortedUpTo_def)
    next
      case False
      then obtain k' where "i \<le> k'" "k' < length xs" "?ys ! b = xs ! k'"
        using sortInner_from[of i "i + 1" b xs] ab by auto
      with ya inv a show ?thesis by (auto simp: sortedUpTo_def)
    qed
  qed
qed

lemma sortOuter_sorted:
  "sortedUpTo xs i \<Longrightarrow> sortedUpTo (sortOuter xs i) (length xs)"
proof (induction xs i rule: sortOuter.induct)
  case (1 srt i)
  show ?case
  proof (cases "i + 1 < length srt")
    case True
    from "1.IH"[OF True sortedUpTo_step[OF "1.prems" True]]
    show ?thesis using True by (subst sortOuter.simps) simp
  next
    case False
    with "1.prems" show ?thesis
      by (subst sortOuter.simps) (auto simp: sortedUpTo_def)
  qed
qed

lemma length_sortOuter [simp]: "length (sortOuter xs i) = length xs"
proof (induction xs i rule: sortOuter.induct)
  case (1 srt i)
  then show ?case by (subst sortOuter.simps) simp
qed

lemma mset_sortOuter: "mset (sortOuter xs i) = mset xs"
proof (induction xs i rule: sortOuter.induct)
  case (1 srt i)
  then show ?case by (subst sortOuter.simps) (simp add: mset_sortInner)
qed

lemma sortDecisionsByPriority_sorted:
  "sortedUpTo (sortDecisionsByPriority ds) (length ds)"
proof (cases "length ds \<le> 1")
  case True
  then show ?thesis by (auto simp: sortDecisionsByPriority_def sortedUpTo_def)
next
  case False
  have "sortedUpTo ds 0" by (simp add: sortedUpTo_def)
  from sortOuter_sorted[OF this] False show ?thesis
    by (simp add: sortDecisionsByPriority_def)
qed

text \<open>
  C5. \<open>sortDecisionsByPriority\<close> returns a permutation of the batch in which an entry of
  smaller priority number always stands before an entry of larger priority number, the
  numbers being 1 for \<open>close_long\<close>, \<open>close_short\<close> and \<open>partial_close\<close>, 2 for
  \<open>update_stop_loss\<close> and \<open>update_take_profit\<close>, 3 for \<open>open_long\<close> and \<open>open_short\<close>,
  4 for \<open>hold\<close> and \<open>wait\<close>, and 999 for any other action. In particular a \<open>close_long\<close>
  of a symbol stands before an \<open>open_long\<close> of that symbol.
\<close>

theorem sortDecisionsByPriority_orders_batch:
  fixes ds :: "Decision list"
  defines "r \<equiv> sortDecisionsByPriority ds"
  shows "mset r = mset ds \<and>
    (\<forall>i j. i < length r \<and> j < length r \<and>
           getActionPriority (Action (r ! i)) < getActionPriority (Action (r ! j)) \<longrightarrow> i < j) \<and>
    (\<forall>i j. i < length r \<and> j < length r \<and>
           Action (r ! i) = ''close_long'' \<and> Action (r ! j) = ''open_long'' \<and>
           Symbol (r ! i) = Symbol (r ! j) \<longrightarrow> i < j) \<and>
    (getActionPriority ''close_long'' = 1 \<and> getActionPriority ''close_short'' = 1 \<and>
     getActionPriority ''partial_close'' = 1 \<and> getActionPriority ''update_stop_loss'' = 2 \<and>
     getActionPriority ''update_take_profit'' = 2 \<and> getActionPriority ''open_long'' = 3 \<and>
     getActionPriority ''open_short'' = 3 \<and> getActionPriority ''hold'' = 4 \<and>
     getActionPriority ''wait'' = 4) \<and>
    (\<forall>a. a \<notin> {''close_long'', ''close_short'', ''partial_close'', ''update_stop_loss'',
               ''update_take_profit'', ''open_long'', ''open_short'', ''hold'', ''wait''}
           \<longrightarrow> getActionPriority a = 999)"
proof -
  have perm: "mset r = mset ds"
    by (simp add: r_def sortDecisionsByPriority_def mset_sortOuter)
  have len: "length r = length ds"
    by (simp add: r_def sortDecisionsByPriority_def)
  have srt: "sortedUpTo r (length r)"
    using sortDecisionsByPriority_sorted[of ds] len by (simp add: r_def)
  have ord: "\<forall>i j. i < length r \<and> j < length r \<and>
           getActionPriority (Action (r ! i)) < getActionPriority (Action (r ! j)) \<longrightarrow> i < j"
  proof (intro allI impI)
    fix i j
    assume h: "i < length r \<and> j < length r \<and>
           getActionPriority (Action (r ! i)) < getActionPriority (Action (r ! j))"
    show "i < j"
    proof (rule ccontr)
      assume "\<not> i < j"
      with h have "j < i" by (cases "i = j") auto
      with srt h have "pr r j \<le> pr r i" by (auto simp: sortedUpTo_def)
      with h show False by simp
    qed
  qed
  have close_open: "\<forall>i j. i < length r \<and> j < length r \<and>
           Action (r ! i) = ''close_long'' \<and> Action (r ! j) = ''open_long'' \<and>
           Symbol (r ! i) = Symbol (r ! j) \<longrightarrow> i < j"
  proof (intro allI impI)
    fix i j
    assume h: "i < length r \<and> j < length r \<and>
           Action (r ! i) = ''close_long'' \<and> Action (r ! j) = ''open_long'' \<and>
           Symbol (r ! i) = Symbol (r ! j)"
    then have "getActionPriority (Action (r ! i)) < getActionPriority (Action (r ! j))"
      by (simp add: getActionPriority_def)
    with ord h show "i < j" by blast
  qed
  have table: "getActionPriority ''close_long'' = 1 \<and> getActionPriority ''close_short'' = 1 \<and>
     getActionPriority ''partial_close'' = 1 \<and> getActionPriority ''update_stop_loss'' = 2 \<and>
     getActionPriority ''update_take_profit'' = 2 \<and> getActionPriority ''open_long'' = 3 \<and>
     getActionPriority ''open_short'' = 3 \<and> getActionPriority ''hold'' = 4 \<and>
     getActionPriority ''wait'' = 4"
    by (simp add: getActionPriority_def)
  have other: "\<forall>a. a \<notin> {''close_long'', ''close_short'', ''partial_close'', ''update_stop_loss'',
               ''update_take_profit'', ''open_long'', ''open_short'', ''hold'', ''wait''}
           \<longrightarrow> getActionPriority a = 999"
    by (simp add: getActionPriority_def)
  from perm ord close_open table other show ?thesis by blast
qed

lemma sortDecisionsByPriority_exampleBatch:
  "sortDecisionsByPriority exampleBatch = [exampleBatch ! 2, exampleBatch ! 0, exampleBatch ! 1]"
  by code_simp

theorem sortDecisionsByPriority_orders_batch_witness:
  "(0::nat) < length (sortDecisionsByPriority exampleBatch) \<and>
   (1::nat) < length (sortDecisionsByPriority exampleBatch) \<and>
   Action (sortDecisionsByPriority exampleBatch ! 0) = ''close_long'' \<and>
   Action (sortDecisionsByPriority exampleBatch ! 1) = ''open_long'' \<and>
   Symbol (sortDecisionsByPriority exampleBatch ! 0) = Symbol (sortDecisionsByPriority exampleBatch ! 1) \<and>
   getActionPriority (Action (sortDecisionsByPriority exampleBatch ! 0))
     < getActionPriority (Action (sortDecisionsByPriority exampleBatch ! 1)) \<and>
   mset (sortDecisionsByPriority exampleBatch) = mset exampleBatch \<and>
   (0::nat) < 1"
  using sortDecisionsByPriority_orders_batch[of exampleBatch]
  unfolding sortDecisionsByPriority_exampleBatch
  by (simp add: exampleBatch_def getActionPriority_def)

subsection \<open>C6: the sizing guardrail on the BTCUSDT example\<close>

lemma capRisk_size [simp]: "PositionSizeUSD (capRisk m d) = PositionSizeUSD d"
  by (simp add: capRisk_def)

lemma normalizeRisk_size [simp]: "PositionSizeUSD (normalizeRisk e d) = PositionSizeUSD d"
  by (simp add: normalizeRisk_def Let_def)

lemma clampToEquity_btc_2000:
  assumes "Symbol d = ''BTCUSDT''" "PositionSizeUSD d = 2000" "RiskUSD d \<ge> 0"
  shows "PositionSizeUSD (clampToEquity e d) =
           (if e \<le> floatEpsilon then 2000 else if e < 150 then e else min 2000 (3 * e))"
    and "RiskUSD (clampToEquity e d) = RiskUSD d * (PositionSizeUSD (clampToEquity e d) / 2000)"
  using assms by (auto simp: clampToEquity_def Let_def floatEpsilon_def)

lemma clampToMaxNotional_980:
  assumes "PositionSizeUSD d > 0" "RiskUSD d \<ge> 0"
  shows "PositionSizeUSD (clampToMaxNotional 980 d) = min 980 (PositionSizeUSD d)"
    and "RiskUSD (clampToMaxNotional 980 d)
           = RiskUSD d * (PositionSizeUSD (clampToMaxNotional 980 d) / PositionSizeUSD d)"
  using assms by (auto simp: clampToMaxNotional_def Let_def)

text \<open>
  C6. With an available balance of 100, leverage 10 and symbol BTCUSDT the safety buffer
  is 2 and \<open>maxNotional\<close> is 980. A decision of size 2000 whose stop-loss distance is
  allowed passes the guardrail with its size clamped to 980, or to the equity cap when
  that is lower (the equity itself below 150, three times the equity from 150 on, none
  when the equity is not positive); each of the two clamps multiplies \<open>risk_usd\<close> by the
  ratio of the new size to the old one. The cap and the normalisation of the risk budget
  that follow leave the size as it is.
\<close>

theorem sizing_example_btc:
  fixes decision :: Decision and md :: Data and totalEquity allowed :: real
  defines "byEquity \<equiv> clampToEquity totalEquity decision"
  defines "clamped \<equiv> clampToMaxNotional 980 (clampToEquity totalEquity decision)"
  assumes sym: "Symbol decision = ''BTCUSDT''" and lev: "Leverage decision = 10"
    and size: "PositionSizeUSD decision = 2000" and risk: "RiskUSD decision \<ge> 0"
    and allowed: "allowedStopDistance (Some md) = Inr allowed"
    and dist: "\<bar>StopLoss decision - CurrentPrice md\<bar> \<le> allowed"
  shows "max (5 / 10) (100 * (2 / 100)) = (2 :: real) \<and>
         (100 - 2) * of_int (Leverage decision) = (980 :: real) \<and>
         ensurePositionFitsBalance decision 100 totalEquity (Some md)
           = Inr (normalizeRisk totalEquity (capRisk 80 clamped)) \<and>
         PositionSizeUSD (normalizeRisk totalEquity (capRisk 80 clamped)) = PositionSizeUSD clamped \<and>
         PositionSizeUSD clamped =
           (if totalEquity \<le> floatEpsilon then 980
            else if totalEquity < 150 then min 980 totalEquity
            else min 980 (3 * totalEquity)) \<and>
         RiskUSD byEquity = RiskUSD decision * (PositionSizeUSD byEquity / PositionSizeUSD decision) \<and>
         RiskUSD clamped = RiskUSD byEquity * (PositionSizeUSD clamped / PositionSizeUSD byEquity) \<and>
         RiskUSD clamped = RiskUSD decision * (PositionSizeUSD clamped / 2000)"
proof -
  have eps: "0 < floatEpsilon" by (simp add: floatEpsilon_def)
  have apos: "0 < allowed" using allowed
    by (auto simp: allowedStopDistance_def Let_def split: option.splits if_splits)
  have e1: "PositionSizeUSD byEquity =
           (if totalEquity \<le> floatEpsilon then 2000 else if totalEquity < 150 then totalEquity
            else min 2000 (3 * totalEquity))"
    unfolding byEquity_def using clampToEquity_btc_2000(1)[OF sym size risk] .
  have r1: "RiskUSD byEquity = RiskUSD decision * (PositionSizeUSD byEquity / 2000)"
    unfolding byEquity_def using clampToEquity_btc_2000(2)[OF sym size risk] .
  have p1: "PositionSizeUSD byEquity > 0" using e1 eps by (auto split: if_splits)
  have "RiskUSD decision * (PositionSizeUSD byEquity / 2000) \<ge> 0"
    using risk p1 by (intro mult_nonneg_nonneg) auto
  then have rk1: "RiskUSD byEquity \<ge> 0" using r1 by simp
  have e2: "PositionSizeUSD clamped = min 980 (PositionSizeUSD byEquity)"
    unfolding clamped_def using clampToMaxNotional_980(1)[OF p1 rk1] by (simp add: byEquity_def)
  have r2: "RiskUSD clamped = RiskUSD byEquity * (PositionSizeUSD clamped / PositionSizeUSD byEquity)"
    unfolding clamped_def using clampToMaxNotional_980(2)[OF p1 rk1] by (simp add: byEquity_def)
  have run: "ensurePositionFitsBalance decision 100 totalEquity (Some md)
           = Inr (normalizeRisk totalEquity (capRisk 80 clamped))"
    using sym lev allowed dist apos
    by (simp add: ensurePositionFitsBalance_def Let_def clamped_def isMajorPair_def)
  have size2: "PositionSizeUSD clamped =
           (if totalEquity \<le> floatEpsilon then 980
            else if totalEquity < 150 then min 980 totalEquity
            else min 980 (3 * totalEquity))"
    using e1 e2 by auto
  have r3: "RiskUSD clamped = RiskUSD decision * (PositionSizeUSD clamped / 2000)"
  proof -
    have "RiskUSD clamped = RiskUSD decision * (PositionSizeUSD byEquity / 2000)
            * (PositionSizeUSD clamped / PositionSizeUSD byEquity)"
      by (subst r2, subst r1) simp
    also have "\<dots> = RiskUSD decision * (PositionSizeUSD clamped / 2000)"
      using p1 by (simp add: field_simps)
    finally show ?thesis .
  qed
  show ?thesis using run size2 r1 r2 r3 lev size by simp
qed

theorem sizing_example_btc_witness:
  "Symbol btcOpenDecision = ''BTCUSDT'' \<and> Leverage btcOpenDecision = 10 \<and>
   PositionSizeUSD btcOpenDecision = 2000 \<and> RiskUSD btcOpenDecision \<ge> 0 \<and>
   allowedStopDistance (Some btcData) = Inr 5 \<and>
   \<bar>StopLoss btcOpenDecision - CurrentPrice btcData\<bar> \<le> 5 \<and>
   PositionSizeUSD (clampToMaxNotional 980 (clampToEquity 1000 btcOpenDecision)) = 980 \<and>
   RiskUSD (clampToMaxNotional 980 (clampToEquity 1000 btcOpenDecision)) = 10 * (980 / 2000) \<and>
   ensurePositionFitsBalance btcOpenDecision 100 1000 (Some btcData)
     = Inr (normalizeRisk 1000 (capRisk 80
              (clampToMaxNotional 980 (clampToEquity 1000 btcOpenDecision))))"
  using sizing_example_btc[of btcOpenDecision btcData 5 1000]
  by (simp add: btcOpenDecision_def btcData_def allowedStopDistance_def floatEpsilon_def
      clampToEquity_def clampToMaxNotional_def isMajorPair_def Let_def)

subsection \<open>C7: the Peak-PnL cache\<close>

lemma UpdatePeakPnL_never_lowers:
  "peakPnLCache tr (positionKey symbol side) = Some peak \<Longrightarrow>
   peakPnLCache (UpdatePeakPnL symbol side currentPnLPct tr) (positionKey symbol side)
     = Some (max peak currentPnLPct)"
  by (auto simp: UpdatePeakPnL_def Let_def)

lemma UpdatePeakPnL_first_record:
  "peakPnLCache tr (positionKey symbol side) = None \<Longrightarrow>
   peakPnLCache (UpdatePeakPnL symbol side currentPnLPct tr) (positionKey symbol side)
     = Some currentPnLPct"
  by (simp add: UpdatePeakPnL_def Let_def)

lemma UpdatePeakPnL_other_key:
  "key \<noteq> positionKey symbol side \<Longrightarrow>
   peakPnLCache (UpdatePeakPnL symbol side currentPnLPct tr) key = peakPnLCache tr key"
  by (simp add: UpdatePeakPnL_def Let_def split: option.splits)

text \<open>
  C7. The peak entry of a position is not cleared when the position is closed by a
  \<open>close_long\<close> decision: the handler succeeds and \<open>handleRealizedPnL\<close> deletes the
  position's entry details, its stop-loss and its take-profit, and the peak of 50 stays
  in \<open>peakPnLCache\<close>.
\<close>

theorem close_long_keeps_peak_entry:
  "fst (executeCloseLongWithRecord calmWorld closeLongDecision peakedTrader) = None \<and>
   calls (snd (executeCloseLongWithRecord calmWorld closeLongDecision peakedTrader))
     = [MarketGet ''BTCUSDT'', CloseLong ''BTCUSDT'' 0] \<and>
   positionMetaCache (snd (executeCloseLongWithRecord calmWorld closeLongDecision peakedTrader))
     (positionKey ''BTCUSDT'' ''long'') = None \<and>
   stopLossCache (snd (executeCloseLongWithRecord calmWorld closeLongDecision peakedTrader))
     (positionKey ''BTCUSDT'' ''long'') = None \<and>
   takeProfitCache (snd (executeCloseLongWithRecord calmWorld closeLongDecision peakedTrader))
     (positionKey ''BTCUSDT'' ''long'') = None \<and>
   peakPnLCache (snd (executeCloseLongWithRecord calmWorld closeLongDecision peakedTrader))
     (positionKey ''BTCUSDT'' ''long'') = Some 50"
  by (simp add: executeCloseLongWithRecord_def do_defs issue_def calmWorld_def btcData_def
      closeLongDecision_def peakedTrader_def freshTrader_def getPositionQuantity_def
      positionKey_def handleRealizedPnL_def updateConsecutiveLosses_def floatEpsilon_def Let_def)

text \<open>
  What the stale entry does: a long position opened afterwards at 110, whose ROI has
  never been above 50/11 percent, is closed by the monitor as if it had retraced from the
  peak of 50 that the closed position left behind.
\<close>

lemma stale_peak_closes_new_position:
  "positionRoiPct (pos_side freshLong) (pos_entryPrice freshLong) (pos_markPrice freshLong)
     (monitorLeverage freshLong) = 50 / 11 \<and>
   calls (checkPositionDrawdownStep calmWorld reopenedTrader freshLong)
     = [MarketGet ''BTCUSDT'', CloseLong ''BTCUSDT'' 0] \<and>
   positionMetaCache (checkPositionDrawdownStep calmWorld reopenedTrader freshLong)
     (positionKey ''BTCUSDT'' ''long'') = None"
  by (simp add: checkPositionDrawdownStep_def monitorLeverage_def toInt_def
      positionRoiPct_def roiProfileFor_def UpdatePeakPnL_def getPeakPnL_def positionKey_def
      emergencyClosePosition_def getPositionQuantity_def handleRealizedPnL_def
      updateConsecutiveLosses_def ClearPeakPnLCache_def do_defs issue_def
      calmWorld_def reopenedTrader_def freshTrader_def freshLong_def btcData_def
      floatEpsilon_def Let_def)

subsection \<open>C8: the partial close of 30% of one BTC\<close>

lemma roundQuantity_btc_thirty_percent:
  assumes "HasPrefix (ToUpper symbol) ''BTC''"
  shows "estimateStepSize symbol = 1 / 1000"
    and "roundQuantity symbol (3 / 10) = 3 / 10"
proof -
  show step: "estimateStepSize symbol = 1 / 1000"
    using assms by (simp add: estimateStepSize_def Let_def)
  have "\<lfloor>(300000000001 / 1000000000 :: real)\<rfloor> = 300" by simp
  then show "roundQuantity symbol (3 / 10) = 3 / 10"
    by (simp add: roundQuantity_def step Let_def)
qed

text \<open>
  C8. A \<open>partial_close\<close> of 30% on a position of quantity 1 in a BTC-prefixed symbol
  closes the quantity 0.3: the step is 0.001, 0.3 is a multiple of it, and no larger
  multiple stays within the exact target 0.3. When the adapter accepts the close and the
  cached quantity exceeds 0.3 by at least \<open>floatEpsilon\<close>, the handler succeeds, the close
  it issues carries the quantity 0.3, and the cached quantity afterwards is the cached
  quantity before minus 0.3.
\<close>

theorem partial_close_thirty_percent:
  fixes w :: world and d :: Decision and tr :: AutoTrader and p :: position
  defines "closeCall \<equiv> (if ToUpper (pos_side p) = ''LONG'' then CloseLong (Symbol d) (3 / 10)
                         else CloseShort (Symbol d) (3 / 10))"
  defines "r \<equiv> executePartialCloseWithRecord w d tr"
  assumes pct: "ClosePercentage d = 30"
    and btc: "HasPrefix (ToUpper (Symbol d)) ''BTC''"
    and md: "market_Get w (calls tr) (Symbol d) = Inr marketData"
    and gp: "trader_GetPositions w (calls tr @ [MarketGet (Symbol d)]) = Inr ps"
    and ft: "findTargetPosition ps (Symbol d) = Some p"
    and amt: "\<bar>pos_positionAmt p\<bar> = 1"
    and ok: "(if ToUpper (pos_side p) = ''LONG''
              then trader_CloseLong w (calls tr @ [MarketGet (Symbol d), GetPositions]) (Symbol d) (3 / 10)
              else trader_CloseShort w (calls tr @ [MarketGet (Symbol d), GetPositions]) (Symbol d) (3 / 10))
             = Inr order"
    and meta: "positionMetaCache tr (positionKey (Symbol d) (pos_side p)) = Some meta"
    and enough: "Quantity meta - 3 / 10 \<ge> floatEpsilon"
  shows "estimateStepSize (Symbol d) = 1 / 1000 \<and>
         roundQuantity (Symbol d) (\<bar>pos_positionAmt p\<bar> * (ClosePercentage d / 100)) = 3 / 10 \<and>
         (3 / 10 :: real) = of_int 300 * estimateStepSize (Symbol d) \<and>
         (\<forall>k :: int. of_int k * estimateStepSize (Symbol d) \<le> \<bar>pos_positionAmt p\<bar> * (ClosePercentage d / 100)
             \<longrightarrow> of_int k * estimateStepSize (Symbol d) \<le> 3 / 10) \<and>
         fst r = None \<and>
         prefix (calls tr @ [MarketGet (Symbol d), GetPositions, closeCall]) (calls (snd r)) \<and>
         positionMetaCache (snd r) (positionKey (Symbol d) (pos_side p))
           = Some (meta\<lparr>Quantity := Quantity meta - 3 / 10\<rparr>)"
proof -
  note rq = roundQuantity_btc_thirty_percent[OF btc]
  let ?tr2 = "issue GetPositions (issue (MarketGet (Symbol d)) tr)"
  let ?tr3 = "issue closeCall ?tr2"
  let ?h = "handleRealizedPnL w (Symbol d) (ToLower (ToUpper (pos_side p))) (3 / 10)
              (CurrentPrice marketData) ?tr3"
  have low: "ToUpper (pos_side p) = ''LONG'' \<Longrightarrow> ToLower (pos_side p) = ''long''"
    by (metis ToLower_ToUpper case_long(3))
  have run: "r = (None, evaluateSymbolProtection w (Symbol d) ?h)"
    using pct md gp ft amt ok low
    by (auto simp: rq r_def closeCall_def executePartialCloseWithRecord_def do_defs Let_def)
  have hmeta: "positionMetaCache ?h (positionKey (Symbol d) (pos_side p))
           = Some (meta\<lparr>Quantity := Quantity meta - 3 / 10\<rparr>)"
    using handleRealizedPnL_remaining[of "3 / 10" ?tr3 "Symbol d" "ToLower (ToUpper (pos_side p))"
        meta w "CurrentPrice marketData"] meta enough
    by simp
  have hcalls: "calls ?h = calls tr @ [MarketGet (Symbol d), GetPositions, closeCall]"
    by simp
  from evaluateSymbolProtection_frame[of w "Symbol d" ?h] hmeta hcalls run
  have "fst r = None \<and>
         prefix (calls tr @ [MarketGet (Symbol d), GetPositions, closeCall]) (calls (snd r)) \<and>
         positionMetaCache (snd r) (positionKey (Symbol d) (pos_side p))
           = Some (meta\<lparr>Quantity := Quantity meta - 3 / 10\<rparr>)"
    by simp
  then show ?thesis using pct amt by (simp add: rq)
qed

theorem partial_close_thirty_percent_witness:
  "ClosePercentage partialCloseDecision = 30 \<and>
   HasPrefix (ToUpper (Symbol partialCloseDecision)) ''BTC'' \<and>
   market_Get shrinkingWorld (calls peakedTrader) (Symbol partialCloseDecision) = Inr btcData \<and>
   trader_GetPositions shrinkingWorld (calls peakedTrader @ [MarketGet (Symbol partialCloseDecision)])
     = Inr [btcLong] \<and>
   findTargetPosition [btcLong] (Symbol partialCloseDecision) = Some btcLong \<and>
   \<bar>pos_positionAmt btcLong\<bar> = 1 \<and>
   ToUpper (pos_side btcLong) = ''LONG'' \<and>
   trader_CloseLong shrinkingWorld
     (calls peakedTrader @ [MarketGet (Symbol partialCloseDecision), GetPositions])
     (Symbol partialCloseDecision) (3 / 10) = Inr 3 \<and>
   positionMetaCache peakedTrader (positionKey (Symbol partialCloseDecision) (pos_side btcLong))
     = Some \<lparr>Side = ''long'', EntryPrice = 100, Quantity = 1\<rparr> \<and>
   (1 :: real) - 3 / 10 \<ge> floatEpsilon \<and>
   fst (executePartialCloseWithRecord shrinkingWorld partialCloseDecision peakedTrader) = None \<and>
   positionMetaCache
     (snd (executePartialCloseWithRecord shrinkingWorld partialCloseDecision peakedTrader))
     (positionKey ''BTCUSDT'' ''long'')
     = Some \<lparr>Side = ''long'', EntryPrice = 100, Quantity = 7 / 10\<rparr>"
  using partial_close_thirty_percent[of partialCloseDecision shrinkingWorld peakedTrader
      btcData "[btcLong]" btcLong 3 "\<lparr>Side = ''long'', EntryPrice = 100, Quantity = 1\<rparr>"]
  by (simp add: partialCloseDecision_def shrinkingWorld_def calmWorld_def peakedTrader_def
      freshTrader_def btcLong_def findTargetPosition_def positionKey_def HasPrefix_def
      floatEpsilon_def)

subsection \<open>C9: idempotence of the auto take-profit synthesis\<close>

lemma desiredTakeProfit_cong:
  "stopLossCache tr' = stopLossCache tr \<Longrightarrow> desiredTakeProfit tr' ctx pos = desiredTakeProfit tr ctx pos"
  by (simp add: desiredTakeProfit_def getStopLoss_def)

lemma autoTakeProfitTarget_Some_desired:
  "autoTakeProfitTarget tr ctx pos = Some t \<Longrightarrow> desiredTakeProfit tr ctx pos = Some t"
  by (auto simp: autoTakeProfitTarget_def Let_def split: option.splits if_splits)

lemma autoTakeProfitTarget_suppressed:
  assumes side: "ToLower (pi_Side pos) = ''long'' \<or> ToLower (pi_Side pos) = ''short''"
    and target: "autoTakeProfitTarget tr ctx pos = Some t"
    and nonneg: "0 \<le> t"
    and stop: "stopLossCache tr' = stopLossCache tr"
    and tp: "takeProfitCache tr' (positionKey (pi_Symbol pos) (pi_Side pos)) = Some t"
  shows "autoTakeProfitTarget tr' ctx pos = None"
proof -
  have des: "desiredTakeProfit tr' ctx pos = Some t"
    using autoTakeProfitTarget_Some_desired[OF target] desiredTakeProfit_cong[OF stop] by simp
  have cached: "getTakeProfit tr' (pi_Symbol pos) (ToLower (pi_Side pos)) = Some t"
    using tp by (simp add: getTakeProfit_def)
  have up: "t \<le> t * (1 + 1 / 100000)" and down: "t \<ge> t * (1 - 1 / 100000)"
    using nonneg by (simp_all add: algebra_simps)
  show ?thesis
    using side des cached up down by (auto simp: autoTakeProfitTarget_def Let_def)
qed

lemma executeUpdateTakeProfitWithRecord_caches:
  assumes exec: "executeUpdateTakeProfitWithRecord w d tr = (None, tr')"
    and gp: "trader_GetPositions w (calls tr @ [MarketGet (Symbol d)]) = Inr ps"
    and ft: "findTargetPosition ps (Symbol d) = Some p"
  shows "stopLossCache tr' = stopLossCache tr"
    and "takeProfitCache tr' (positionKey (Symbol d) (pos_side p)) = Some (NewTakeProfit d)"
  using exec gp ft positionKey_ToUpper[of "Symbol d" "pos_side p"]
  by (auto simp: executeUpdateTakeProfitWithRecord_def do_defs Let_def storeTakeProfit_def
      simp del: positionKey_ToUpper split: sum.splits option.splits if_splits)

lemma positionKey_same_lower:
  "ToLower a = ToLower b \<Longrightarrow> positionKey s a = positionKey s b"
  by (simp add: positionKey_def)

text \<open>
  C9. Take a position whose side is long or short and for which the synthesis pass
  computes the target \<open>t\<close>, a price that is not negative. Once the synthesized
  \<open>update_take_profit\<close> has succeeded on the exchange position of that symbol and side,
  the target is the cached take-profit, and a second pass over the same position and
  context computes no target for it: its step leaves the decisions collected so far as
  they are, and a pass over a context holding only this position returns no decision.
\<close>

theorem auto_take_profit_idempotent:
  fixes w :: world and tr tr' :: AutoTrader and ctx :: Context and pos :: PositionInfo and t :: real
  defines "d \<equiv> autoTakeProfitDecision pos t"
  assumes side: "ToLower (pi_Side pos) = ''long'' \<or> ToLower (pi_Side pos) = ''short''"
    and target: "autoTakeProfitTarget tr ctx pos = Some t"
    and nonneg: "0 \<le> t"
    and exec: "executeUpdateTakeProfitWithRecord w d tr = (None, tr')"
    and gp: "trader_GetPositions w (calls tr @ [MarketGet (pi_Symbol pos)]) = Inr ps"
    and ft: "findTargetPosition ps (pi_Symbol pos) = Some p"
    and same: "ToLower (pos_side p) = ToLower (pi_Side pos)"
  shows "takeProfitCache tr' (positionKey (pi_Symbol pos) (pi_Side pos)) = Some t \<and>
         autoTakeProfitTarget tr' ctx pos = None \<and>
         (\<forall>acc. autoTakeProfitStep tr' ctx acc pos = acc) \<and>
         (Positions ctx = [pos] \<longrightarrow>
            (buildAutoTakeProfitDecisions tr (Some ctx) base = [d] \<or>
             buildAutoTakeProfitDecisions tr (Some ctx) base = []) \<and>
            buildAutoTakeProfitDecisions tr' (Some ctx) base = [])"
proof -
  have sym: "Symbol d = pi_Symbol pos" and new: "NewTakeProfit d = t"
    by (simp_all add: d_def autoTakeProfitDecision_def)
  have stop: "stopLossCache tr' = stopLossCache tr"
    using executeUpdateTakeProfitWithRecord_caches(1)[OF exec] gp ft sym by simp
  have "takeProfitCache tr' (positionKey (Symbol d) (pos_side p)) = Some (NewTakeProfit d)"
    using executeUpdateTakeProfitWithRecord_caches(2)[OF exec] gp ft sym by simp
  then have tp: "takeProfitCache tr' (positionKey (pi_Symbol pos) (pi_Side pos)) = Some t"
    using positionKey_same_lower[OF same, of "pi_Symbol pos"] sym new by simp
  have none: "autoTakeProfitTarget tr' ctx pos = None"
    by (rule autoTakeProfitTarget_suppressed[OF side target nonneg stop tp])
  have step: "\<forall>acc. autoTakeProfitStep tr' ctx acc pos = acc"
    using none by (auto simp: autoTakeProfitStep_def Let_def split: prod.splits)
  have pass: "Positions ctx = [pos] \<longrightarrow>
            (buildAutoTakeProfitDecisions tr (Some ctx) base = [d] \<or>
             buildAutoTakeProfitDecisions tr (Some ctx) base = []) \<and>
            buildAutoTakeProfitDecisions tr' (Some ctx) base = []"
    using step target
    by (auto simp: buildAutoTakeProfitDecisions_def autoTakeProfitStep_def Let_def d_def
        autoTakeProfitDecision_def)
  from tp none step pass show ?thesis by blast
qed

theorem auto_take_profit_idempotent_witness:
  "ToLower (pi_Side btcLongInfo) = ''long'' \<and>
   autoTakeProfitTarget trailingTrader btcContext btcLongInfo = Some (235 / 2) \<and>
   (0 :: real) \<le> 235 / 2 \<and>
   fst (executeUpdateTakeProfitWithRecord calmWorld (autoTakeProfitDecision btcLongInfo (235 / 2))
          trailingTrader) = None \<and>
   trader_GetPositions calmWorld (calls trailingTrader @ [MarketGet (pi_Symbol btcLongInfo)])
     = Inr [btcLong] \<and>
   findTargetPosition [btcLong] (pi_Symbol btcLongInfo) = Some btcLong \<and>
   ToLower (pos_side btcLong) = ToLower (pi_Side btcLongInfo) \<and>
   Positions btcContext = [btcLongInfo] \<and>
   buildAutoTakeProfitDecisions trailingTrader (Some btcContext) []
     = [autoTakeProfitDecision btcLongInfo (235 / 2)] \<and>
   buildAutoTakeProfitDecisions
     (snd (executeUpdateTakeProfitWithRecord calmWorld
             (autoTakeProfitDecision btcLongInfo (235 / 2)) trailingTrader))
     (Some btcContext) [] = []"
proof -
  have target: "autoTakeProfitTarget trailingTrader btcContext btcLongInfo = Some (235 / 2)"
    by (simp add: autoTakeProfitTarget_def desiredTakeProfit_def getStopLoss_def
        getTakeProfit_def positionKey_def trailingTrader_def freshTrader_def btcContext_def
        btcLongInfo_def floatEpsilon_def Let_def)
  have exec: "fst (executeUpdateTakeProfitWithRecord calmWorld
                (autoTakeProfitDecision btcLongInfo (235 / 2)) trailingTrader) = None"
    by (simp add: executeUpdateTakeProfitWithRecord_def do_defs issue_def calmWorld_def
        btcData_def btcLong_def findTargetPosition_def autoTakeProfitDecision_def
        btcLongInfo_def Let_def)
  have first: "buildAutoTakeProfitDecisions trailingTrader (Some btcContext) []
     = [autoTakeProfitDecision btcLongInfo (235 / 2)]"
    using target
    by (simp add: buildAutoTakeProfitDecisions_def explicitTakeProfitKeys_def
        autoTakeProfitStep_def autoTakeProfitDecision_def btcContext_def Let_def)
  have pair: "executeUpdateTakeProfitWithRecord calmWorld
                (autoTakeProfitDecision btcLongInfo (235 / 2)) trailingTrader
              = (None, snd (executeUpdateTakeProfitWithRecord calmWorld
                (autoTakeProfitDecision btcLongInfo (235 / 2)) trailingTrader))"
    using exec by (metis prod.collapse)
  have gp: "trader_GetPositions calmWorld (calls trailingTrader @ [MarketGet (pi_Symbol btcLongInfo)])
     = Inr [btcLong]"
    by (simp add: calmWorld_def)
  have ft: "findTargetPosition [btcLong] (pi_Symbol btcLongInfo) = Some btcLong"
    by (simp add: findTargetPosition_def btcLong_def btcLongInfo_def)
  have same: "ToLower (pos_side btcLong) = ToLower (pi_Side btcLongInfo)"
    by (simp add: btcLong_def btcLongInfo_def)
  have side: "ToLower (pi_Side btcLongInfo) = ''long'' \<or> ToLower (pi_Side btcLongInfo) = ''short''"
    by (simp add: btcLongInfo_def)
  have ctx: "Positions btcContext = [btcLongInfo]" by (simp add: btcContext_def)
  from auto_take_profit_idempotent[OF side target _ pair gp ft same, of "[]"] ctx
  have "buildAutoTakeProfitDecisions
     (snd (executeUpdateTakeProfitWithRecord calmWorld
             (autoTakeProfitDecision btcLongInfo (235 / 2)) trailingTrader))
     (Some btcContext) [] = []"
    by simp
  with target exec first gp ft same ctx side show ?thesis
    by (simp add: btcLongInfo_def)
qed

subsection \<open>C10: the duplicate-position gate when the positions query fails\<close>

lemma placeOpenOrder_ignores_positions:
  "placeOpenOrder (w\<lparr>trader_GetPositions := f\<rparr>) side d md q tr = placeOpenOrder w side d md q tr"
  by (simp add: placeOpenOrder_def do_defs Let_def cong: sum.case_cong option.case_cong if_cong)

lemma openAfterGate_ignores_positions:
  "openAfterGate (w\<lparr>trader_GetPositions := f\<rparr>) side d tr = openAfterGate w side d tr"
  by (simp add: openAfterGate_def placeOpenOrder_ignores_positions do_defs Let_def
      cong: sum.case_cong option.case_cong if_cong)

lemma placeOpenOrder_not_duplicate:
  "fst (placeOpenOrder w side d md q tr) \<noteq> Some (DuplicatePosition s x)"
  by (simp add: placeOpenOrder_def do_defs Let_def split: prod.splits sum.splits option.splits)

lemma ensureMidTermEntryFilters_not_duplicate:
  "ensureMidTermEntryFilters data side \<noteq> Some (DuplicatePosition s x)"
  by (simp add: ensureMidTermEntryFilters_def Let_def split: option.splits)

lemma ensureShortTermMomentum_not_duplicate:
  "ensureShortTermMomentum data side \<noteq> Some (DuplicatePosition s x)"
  by (simp add: ensureShortTermMomentum_def rsiSlopeCheck_def Let_def split: option.splits)

lemma ensurePositionFitsBalance_not_duplicate:
  "ensurePositionFitsBalance d a e md \<noteq> Inl (DuplicatePosition s x)"
  by (simp add: ensurePositionFitsBalance_def Let_def split: option.splits sum.splits)

lemma openAfterGate_not_duplicate:
  "fst (openAfterGate w side d tr) \<noteq> Some (DuplicatePosition s x)"
  using placeOpenOrder_not_duplicate ensureMidTermEntryFilters_not_duplicate
    ensureShortTermMomentum_not_duplicate ensurePositionFitsBalance_not_duplicate
  by (auto simp: openAfterGate_def do_defs Let_def split: prod.splits sum.splits option.splits)

text \<open>
  C10. When the positions query fails, \<open>open_long\<close> and \<open>open_short\<close> behave as if the
  exchange held no position at all: the result is the one of the remaining guardrails
  and calls, whatever positions exist, and it is never the duplicate-position rejection.
  The entry filter is different: without market data, or without the mid-horizon
  indicators, it rejects, and the handler then returns that rejection.
\<close>

theorem duplicate_gate_fails_open:
  assumes err: "trader_GetPositions w (calls tr) = Inl msg"
  shows "executeOpenLongWithRecord w d tr
           = executeOpenLongWithRecord (w\<lparr>trader_GetPositions := (\<lambda>cs. Inr [])\<rparr>) d tr \<and>
         executeOpenShortWithRecord w d tr
           = executeOpenShortWithRecord (w\<lparr>trader_GetPositions := (\<lambda>cs. Inr [])\<rparr>) d tr \<and>
         (Confidence d \<ge> minConfidence \<longrightarrow>
            executeOpenLongWithRecord w d tr = openAfterGate w ''long'' d (issue GetPositions tr) \<and>
            executeOpenShortWithRecord w d tr = openAfterGate w ''short'' d (issue GetPositions tr)) \<and>
         (\<forall>s x. fst (executeOpenLongWithRecord w d tr) \<noteq> Some (DuplicatePosition s x) \<and>
                fst (executeOpenShortWithRecord w d tr) \<noteq> Some (DuplicatePosition s x)) \<and>
         (\<forall>side. ensureMidTermEntryFilters None side = Some (MissingMidTermIndicators side)) \<and>
         (\<forall>md side. MidTermContext md = None \<longrightarrow>
            ensureMidTermEntryFilters (Some md) side = Some (MissingMidTermIndicators side)) \<and>
         (\<forall>md. Confidence d \<ge> minConfidence \<and>
            market_Get w (calls tr @ [GetPositions]) (Symbol d) = Inr md \<and>
            MidTermContext md = None \<longrightarrow>
            executeOpenLongWithRecord w d tr
              = (Some (MissingMidTermIndicators ''long''),
                 issue (MarketGet (Symbol d)) (issue GetPositions tr)))"
proof -
  have eqs: "executeOpenWithRecord w side d tr
           = executeOpenWithRecord (w\<lparr>trader_GetPositions := (\<lambda>cs. Inr [])\<rparr>) side d tr" for side
    using err by (simp add: executeOpenWithRecord_def doGetPositions_def openAfterGate_ignores_positions)
  have rest: "Confidence d \<ge> minConfidence \<Longrightarrow>
        executeOpenWithRecord w side d tr = openAfterGate w side d (issue GetPositions tr)" for side
    using err by (simp add: executeOpenWithRecord_def doGetPositions_def)
  have nodup: "fst (executeOpenWithRecord w side d tr) \<noteq> Some (DuplicatePosition s x)" for side s x
    using err openAfterGate_not_duplicate[of w side d "issue GetPositions tr" s x]
    by (simp add: executeOpenWithRecord_def doGetPositions_def)
  have f1: "\<forall>side. ensureMidTermEntryFilters None side = Some (MissingMidTermIndicators side)"
    by (simp add: ensureMidTermEntryFilters_def)
  have f2: "\<forall>md side. MidTermContext md = None \<longrightarrow>
            ensureMidTermEntryFilters (Some md) side = Some (MissingMidTermIndicators side)"
    by (simp add: ensureMidTermEntryFilters_def)
  have f3: "\<forall>md. Confidence d \<ge> minConfidence \<and>
            market_Get w (calls tr @ [GetPositions]) (Symbol d) = Inr md \<and>
            MidTermContext md = None \<longrightarrow>
            executeOpenLongWithRecord w d tr
              = (Some (MissingMidTermIndicators ''long''),
                 issue (MarketGet (Symbol d)) (issue GetPositions tr))"
    using rest[of "''long''"] f2
    by (auto simp: executeOpenLongWithRecord_def openAfterGate_def doMarketGet_def)
  show ?thesis
    using eqs rest nodup f1 f2 f3
    by (simp add: executeOpenLongWithRecord_def executeOpenShortWithRecord_def)
qed

theorem duplicate_gate_fails_open_witness:
  "trader_GetPositions blindWorld (calls peakedTrader) = Inl ''timeout'' \<and>
   positionMetaCache peakedTrader (positionKey ''BTCUSDT'' ''long'')
     = Some \<lparr>Side = ''long'', EntryPrice = 100, Quantity = 1\<rparr> \<and>
   Confidence btcOpenDecision \<ge> minConfidence \<and>
   fst (executeOpenLongWithRecord blindWorld btcOpenDecision peakedTrader) = None \<and>
   calls (snd (executeOpenLongWithRecord blindWorld btcOpenDecision peakedTrader))
     = [GetPositions, MarketGet ''BTCUSDT'', GetBalance, SetMarginMode ''BTCUSDT'' True,
        OpenLong ''BTCUSDT'' (10 / 11) 10, SetStopLoss ''BTCUSDT'' ''LONG'' (10 / 11) 108,
        SetTakeProfit ''BTCUSDT'' ''LONG'' (10 / 11) 120] \<and>
   fst (executeOpenLongWithRecord calmWorld btcOpenDecision peakedTrader)
     = Some (DuplicatePosition ''BTCUSDT'' ''long'')"
  using duplicate_gate_fails_open[of blindWorld peakedTrader "''timeout''" btcOpenDecision]
  by (simp add: blindWorld_def calmWorld_def peakedTrader_def freshTrader_def btcOpenDecision_def
      btcData_def btcLong_def minConfidence_def positionKey_def
      executeOpenLongWithRecord_def executeOpenWithRecord_def openAfterGate_def
      placeOpenOrder_def do_defs issue_def ensureMidTermEntryFilters_def
      ensureShortTermMomentum_def rsiSlopeCheck_def totalEquityOf_def
      ensurePositionFitsBalance_def allowedStopDistance_def clampToEquity_def
      clampToMaxNotional_def capRisk_def normalizeRisk_def isMajorPair_def floatEpsilon_def
      storePositionMeta_def storeStopLoss_def storeTakeProfit_def Let_def)

end
